theory Spec2Isabelle
  imports Complex_Main "HOL-Library.Monad_Syntax"
begin

section \<open>Vectors and matrices\<close>

text \<open>
  The haptic glove module works on \<^verbatim>\<open>yarp::sig::Vector\<close> and on dynamically sized,
  row-major Eigen matrices of \<^verbatim>\<open>double\<close>. A vector is a list; a matrix is its column
  count together with the list of its rows, so that a matrix with no rows still has a
  width, as in Eigen. Doubles are idealised as reals. A column or row vector that the
  source holds in an \<open>n \<times> 1\<close> or \<open>1 \<times> n\<close> Eigen temporary is a list here.

  Unchecked element access out of range and an Eigen operation on operands whose sizes do
  not fit are undefined in the source; every function that can reach one returns an
  option, and \<open>None\<close> is that outcome.
\<close>

type_synonym vec = "real list"

record matrix =
  cols :: nat
  rowlist :: "real list list"

definition rows :: "matrix \<Rightarrow> nat" where
  "rows m = length (rowlist m)"

text \<open>Every Eigen matrix is rectangular.\<close>

definition rect :: "matrix \<Rightarrow> bool" where
  "rect m = (\<forall>r \<in> set (rowlist m). length r = cols m)"

text \<open>A default-constructed dynamic matrix is \<open>0 \<times> 0\<close>.\<close>

definition empty_matrix :: matrix where
  "empty_matrix = \<lparr>cols = 0, rowlist = []\<rparr>"

text \<open>\<^verbatim>\<open>Eigen::MatrixXd::Identity(n, n)\<close>\<close>

definition Identity :: "nat \<Rightarrow> matrix" where
  "Identity n = \<lparr>cols = n, rowlist = map (\<lambda>i. map (\<lambda>j. if i = j then 1 else 0) [0..<n]) [0..<n]\<rparr>"

definition dot :: "vec \<Rightarrow> vec \<Rightarrow> real" where
  "dot u v = sum_list (map2 (*) u v)"

definition column :: "nat \<Rightarrow> matrix \<Rightarrow> vec" where
  "column j m = map (\<lambda>r. r ! j) (rowlist m)"

text \<open>\<^verbatim>\<open>m.col(i)\<close>: the index is asserted to be in range.\<close>

definition col :: "nat \<Rightarrow> matrix \<Rightarrow> vec option" where
  "col i m = (if i < cols m then Some (column i m) else None)"

text \<open>\<^verbatim>\<open>m.transpose()\<close>\<close>

definition transposeM :: "matrix \<Rightarrow> matrix" where
  "transposeM m = \<lparr>cols = rows m, rowlist = map (\<lambda>j. column j m) [0..<cols m]\<rparr>"

text \<open>\<^verbatim>\<open>a * b\<close> on matrices: the inner sizes are asserted to agree.\<close>

definition mult :: "matrix \<Rightarrow> matrix \<Rightarrow> matrix option" where
  "mult a b =
     (if cols a = rows b
      then Some \<lparr>cols = cols b,
                 rowlist = map (\<lambda>r. map (\<lambda>j. dot r (column j b)) [0..<cols b]) (rowlist a)\<rparr>
      else None)"

text \<open>\<^verbatim>\<open>a * v\<close> for a column vector \<open>v\<close>; the result is the column vector of the products.\<close>

definition mat_vec :: "matrix \<Rightarrow> vec \<Rightarrow> vec option" where
  "mat_vec a v = (if cols a = length v then Some (map (\<lambda>r. dot r v) (rowlist a)) else None)"

text \<open>
  The loop \<^verbatim>\<open>for (i = 0; i < n; i++) dst(i) = src(i);\<close> into a destination of size \<open>n\<close>:
  it reads the first \<open>n\<close> entries of the source, which must exist.
\<close>

definition read_prefix :: "nat \<Rightarrow> vec \<Rightarrow> vec option" where
  "read_prefix n src = (if n \<le> length src then Some (take n src) else None)"

text \<open>
  Modelled from the spec: \<^verbatim>\<open>push_back_row\<close> is declared in \<^verbatim>\<open>Utils.hpp\<close>, which is not among
  the sources. Section 4.1 of the specification: recording a sample "appends one row to
  each of the two sample logs" and "fails (returns false) if either vector's size
  mismatches the configured axis/joint count"; the estimator assembles the coupling
  matrix "row-by-row across joints". A matrix that was never sized (\<open>0 \<times> 0\<close>) has no
  configured count and takes the width of its first row. On failure the matrix is left
  as it was.
\<close>

definition push_back_row :: "matrix \<Rightarrow> vec \<Rightarrow> bool \<times> matrix" where
  "push_back_row m v =
     (if (cols m \<noteq> 0 \<or> rowlist m \<noteq> []) \<and> cols m \<noteq> length v then (False, m)
      else (True, \<lparr>cols = length v, rowlist = rowlist m @ [v]\<rparr>))"

section \<open>The robot control helper and the integrator\<close>

text \<open>
  Modelled from the spec: \<^verbatim>\<open>HapticGlove::RobotControlHelper\<close> is not among the sources.
  Section 6 of the specification lists its interface: the number of actuated axes and of
  joints, the position and velocity limits, \<^verbatim>\<open>getFeedback() -> ok\<close> that "refreshes internal
  cache", the cached \<^verbatim>\<open>jointEncoders()\<close> and \<^verbatim>\<open>analogSensors()\<close>, and \<^verbatim>\<open>move(axisRef)\<close>. The
  record holds the two counts, the limits, the cache and the last command moved to.
\<close>

record RobotControlHelper =
  getActuatedDoFs :: nat
  getNumberOfJoints :: nat
  getLimits :: "matrix option"
  getVelocityLimits :: matrix
  jointEncoders :: vec
  analogSensors :: vec
  lastCommand :: "vec option"

text \<open>
  Modelled from the spec: \<^verbatim>\<open>RobotControlHelper::getFeedback\<close>. The argument is what the
  sensors deliver in this cycle, the axis and the joint measurements, or \<open>None\<close> when the
  read fails. Section 7: "sensor read failed -- logged, stale cache retained".
\<close>

definition getFeedback :: "(vec \<times> vec) option \<Rightarrow> RobotControlHelper \<Rightarrow> bool \<times> RobotControlHelper" where
  "getFeedback reading h =
     (case reading of
        None \<Rightarrow> (False, h)
      | Some (enc, ana) \<Rightarrow> (True, h\<lparr>jointEncoders := enc, analogSensors := ana\<rparr>))"

text \<open>
  \<^verbatim>\<open>iCub::ctrl::Integrator(samplingTime, buff, limits)\<close> of the iCub control library: the
  record keeps the constructor's arguments, and \<^verbatim>\<open>integrate\<close> is a parameter of the
  functions that call it.
\<close>

record Integrator =
  int_Ts :: real
  int_y :: vec
  int_lim :: matrix

section \<open>FingersRetargeting\<close>

record FingersRetargeting =
  m_controlHelper :: RobotControlHelper
  m_fingersScaling :: vec
  m_motorJointsCoupled :: bool
  m_doCalibration :: bool
  m_A :: matrix
  m_controlCoeff :: matrix
  m_desiredMotorValue :: vec
  m_desiredJointValue :: vec
  m_fingerIntegrator :: "Integrator option"
  m_jointsData :: matrix
  m_motorsData :: matrix
  motorVelocityReference :: vec

text \<open>
  The body of the loop of \<^verbatim>\<open>setFingersAxisReference\<close>, over the indices still to visit:
  \<^verbatim>\<open>m_desiredMotorValue(i) = fingersReference(i) * m_fingersScaling(i)\<close>.
\<close>

fun scale_loop :: "vec \<Rightarrow> vec \<Rightarrow> nat list \<Rightarrow> vec \<Rightarrow> vec option" where
  "scale_loop fingersReference scaling [] desired = Some desired"
| "scale_loop fingersReference scaling (i # is) desired =
     (if i < length fingersReference \<and> i < length scaling \<and> i < length desired
      then scale_loop fingersReference scaling is
             (desired[i := fingersReference ! i * scaling ! i])
      else None)"

definition setFingersAxisReference ::
  "vec \<Rightarrow> FingersRetargeting \<Rightarrow> (bool \<times> FingersRetargeting) option" where
  "setFingersAxisReference fingersReference s =
     (if length fingersReference \<noteq> length (m_desiredMotorValue s) then Some (False, s)
      else do {
        desired \<leftarrow> scale_loop fingersReference (m_fingersScaling s)
                     [0..<length fingersReference] (m_desiredMotorValue s);
        Some (True, s\<lparr>m_desiredMotorValue := desired\<rparr>)
      })"

text \<open>
  \<^verbatim>\<open>setFingersJointReference\<close> copies the reference into a \<open>noJoints \<times> 1\<close> matrix, multiplies
  it by \<^verbatim>\<open>m_controlCoeff\<close>, copies the first \<open>noMotors\<close> entries of the product into a
  vector and calls \<^verbatim>\<open>setFingersAxisReference\<close>, whose status it drops.
\<close>

definition setFingersJointReference ::
  "vec \<Rightarrow> FingersRetargeting \<Rightarrow> (bool \<times> FingersRetargeting) option" where
  "setFingersJointReference fingersReference s =
     (if length fingersReference \<noteq> length (m_desiredJointValue s) then Some (False, s)
      else do {
        let noJoints = getNumberOfJoints (m_controlHelper s);
        let noMotors = getActuatedDoFs (m_controlHelper s);
        fingersJointsRef \<leftarrow> read_prefix noJoints fingersReference;
        fingersMotorRef \<leftarrow> mat_vec (m_controlCoeff s) fingersJointsRef;
        fingersMotorsReference \<leftarrow> read_prefix noMotors fingersMotorRef;
        (ok, s') \<leftarrow> setFingersAxisReference fingersMotorsReference s;
        Some (True, s')
      })"

text \<open>
  Modelled from the spec: \<^verbatim>\<open>YarpHelper::getYarpVectorFromSearchable\<close> is declared in
  \<^verbatim>\<open>Utils.hpp\<close>, which is not among the sources. Section 7 of the specification: a
  "missing/malformed size-mismatched config entry" is fatal at configure time. The first
  argument is the entry of the configuration, if any; the second is the size expected of
  it.
\<close>

definition getYarpVectorFromSearchable :: "vec option \<Rightarrow> nat \<Rightarrow> vec option" where
  "getYarpVectorFromSearchable entry n =
     (case entry of None \<Rightarrow> None | Some v \<Rightarrow> if length v = n then Some v else None)"

text \<open>
  What \<^verbatim>\<open>configure\<close> reads: the control helper as its own \<^verbatim>\<open>configure\<close> leaves it (\<open>None\<close>
  when that fails) and the entries of the configuration (\<open>None\<close> for a missing one; the two
  flags default to false).
\<close>

record config =
  cfg_controlHelper :: "RobotControlHelper option"
  cfg_samplingTime :: "real option"
  cfg_fingersScaling :: "vec option"
  cfg_motorsJointsCoupled :: bool
  cfg_doCalibration :: bool
  cfg_CouplingMatrix :: "vec option"

text \<open>
  \<^verbatim>\<open>updateFeedback\<close> returns what the helper's \<^verbatim>\<open>getFeedback\<close> returns (and logs on failure);
  the two getters copy the helper's cache.
\<close>

definition updateFeedback :: "(vec \<times> vec) option \<Rightarrow> FingersRetargeting \<Rightarrow> bool \<times> FingersRetargeting" where
  "updateFeedback reading s =
     (let (ok, h) = getFeedback reading (m_controlHelper s)
      in if \<not> ok then (False, s\<lparr>m_controlHelper := h\<rparr>) else (True, s\<lparr>m_controlHelper := h\<rparr>))"

definition getFingerAxisMeasuredValues :: "FingersRetargeting \<Rightarrow> vec" where
  "getFingerAxisMeasuredValues s = jointEncoders (m_controlHelper s)"

definition getFingerJointsMeasuredValues :: "FingersRetargeting \<Rightarrow> vec" where
  "getFingerJointsMeasuredValues s = analogSensors (m_controlHelper s)"

text \<open>
  Modelled from the spec: \<^verbatim>\<open>FingersRetargeting::move\<close> is not among the sources. Section 4.3:
  the engine "stores" the scaled reference "as the desired motor command" and the
  calibration operations "push the axis reference to the actuator"; section 6:
  \<^verbatim>\<open>move(axisRef)\<close>. The helper records the command it was given.
\<close>

definition move :: "FingersRetargeting \<Rightarrow> FingersRetargeting" where
  "move s = s\<lparr>m_controlHelper := (m_controlHelper s)\<lparr>lastCommand := Some (m_desiredMotorValue s)\<rparr>\<rparr>"

text \<open>
  \<^verbatim>\<open>FingersRetargeting::configure\<close> on a freshly constructed object; \<open>None\<close> is the return
  value false. The second argument is what the sensors deliver to the \<^verbatim>\<open>updateFeedback\<close>
  call inside. \<^verbatim>\<open>resize\<close> of a yarp vector leaves the entries unspecified; they are 0 here
  and nothing below depends on them.
\<close>

definition configure :: "config \<Rightarrow> (vec \<times> vec) option \<Rightarrow> FingersRetargeting option" where
  "configure cfg reading =
     (case cfg_controlHelper cfg of
        None \<Rightarrow> None
      | Some helper \<Rightarrow>
          let fingersNoOfAxis = getActuatedDoFs helper in
          (case cfg_samplingTime cfg of
             None \<Rightarrow> None
           | Some samplingTime \<Rightarrow>
               (case getYarpVectorFromSearchable (cfg_fingersScaling cfg) fingersNoOfAxis of
                  None \<Rightarrow> None
                | Some fingersScaling \<Rightarrow>
                    let noAnalogSensor = getNumberOfJoints helper in
                    (case (if cfg_motorsJointsCoupled cfg
                           then (if \<not> cfg_doCalibration cfg
                                 then (case getYarpVectorFromSearchable (cfg_CouplingMatrix cfg)
                                              (noAnalogSensor * fingersNoOfAxis) of
                                         None \<Rightarrow> None
                                       | Some A_vector \<Rightarrow>
                                           Some \<lparr>cols = fingersNoOfAxis,
                                                 rowlist = map (\<lambda>i. map (\<lambda>j. A_vector ! (i * fingersNoOfAxis + j))
                                                                      [0..<fingersNoOfAxis])
                                                             [0..<noAnalogSensor]\<rparr>)
                                 else Some empty_matrix)
                           else Some (Identity fingersNoOfAxis)) of
                       None \<Rightarrow> None
                     | Some A \<Rightarrow>
                         let (ok, helper') = getFeedback reading helper;
                             buff = jointEncoders helper'
                         in (case getLimits helper' of
                               None \<Rightarrow> None
                             | Some limits \<Rightarrow>
                                 Some \<lparr>m_controlHelper = helper',
                                       m_fingersScaling = fingersScaling,
                                       m_motorJointsCoupled = cfg_motorsJointsCoupled cfg,
                                       m_doCalibration = cfg_doCalibration cfg,
                                       m_A = A,
                                       m_controlCoeff = empty_matrix,
                                       m_desiredMotorValue = replicate fingersNoOfAxis 0,
                                       m_desiredJointValue = replicate noAnalogSensor 0,
                                       m_fingerIntegrator =
                                         Some \<lparr>int_Ts = samplingTime, int_y = buff, int_lim = limits\<rparr>,
                                       m_jointsData = \<lparr>cols = noAnalogSensor, rowlist = []\<rparr>,
                                       m_motorsData = \<lparr>cols = fingersNoOfAxis, rowlist = []\<rparr>,
                                       motorVelocityReference = []\<rparr>)))))"

subsection \<open>The calibration session\<close>

text \<open>\<^verbatim>\<open>m(i, j)\<close> on a yarp matrix, with the range written out.\<close>

definition entry :: "matrix \<Rightarrow> nat \<Rightarrow> nat \<Rightarrow> real option" where
  "entry m i j = (if i < rows m \<and> j < length (rowlist m ! i) then Some (rowlist m ! i ! j) else None)"

text \<open>\<^verbatim>\<open>v(i)\<close> on a yarp vector, with the range written out.\<close>

definition elem :: "vec \<Rightarrow> nat \<Rightarrow> real option" where
  "elem v i = (if i < length v then Some (v ! i) else None)"

text \<open>
  The loop that draws one random velocity per axis and appends it to the member
  \<^verbatim>\<open>motorVelocityReference\<close>. \<open>rnd i\<close> is \<^verbatim>\<open>double(rand()) / double(RAND_MAX)\<close> of the draw for
  axis \<open>i\<close>.
\<close>

fun random_loop :: "matrix \<Rightarrow> (nat \<Rightarrow> real) \<Rightarrow> nat list \<Rightarrow> vec \<Rightarrow> vec option" where
  "random_loop motorVelocitylimits rnd [] velocityReference = Some velocityReference"
| "random_loop motorVelocitylimits rnd (i # is) velocityReference =
     (case entry motorVelocitylimits i 1 of
        None \<Rightarrow> None
      | Some l \<Rightarrow>
          random_loop motorVelocitylimits rnd is
            (velocityReference @ [- 1 * l + rnd i * 2 * l]))"

text \<open>
  The random variant. The values that it writes to the log after the loop,
  \<^verbatim>\<open>motorVelocitylimits(0, 0)\<close>, \<^verbatim>\<open>motorVelocitylimits(0, 1)\<close> and \<^verbatim>\<open>motorVelocityReference(0)\<close>,
  and after the integration, \<^verbatim>\<open>motorReference(0)\<close>, are unchecked reads like the others.
\<close>

definition LogDataToCalibrateRobotMotorsJointsCouplingRandom ::
  "(Integrator \<Rightarrow> vec \<Rightarrow> vec \<times> Integrator) \<Rightarrow> (nat \<Rightarrow> real) \<Rightarrow> bool \<Rightarrow>
     FingersRetargeting \<Rightarrow> (bool \<times> FingersRetargeting) option" where
  "LogDataToCalibrateRobotMotorsJointsCouplingRandom integrate rnd generateRandomVelocity s =
     (if \<not> m_motorJointsCoupled s then Some (True, s)
      else if \<not> m_doCalibration s then Some (True, s)
      else case m_fingerIntegrator s of
        None \<Rightarrow> Some (False, s)
      | Some integrator \<Rightarrow> do {
          let fingerAxisValues = getFingerAxisMeasuredValues s;
          let fingerJointsValues = getFingerJointsMeasuredValues s;
          let noJoints = getNumberOfJoints (m_controlHelper s);
          let noAxis = getActuatedDoFs (m_controlHelper s);
          fingerAxisValuesEigen \<leftarrow> read_prefix noAxis fingerAxisValues;
          fingerJointsValuesEigen \<leftarrow> read_prefix noJoints fingerJointsValues;
          let (ok1, motorsData) = push_back_row (m_motorsData s) fingerAxisValuesEigen;
          if \<not> ok1 then Some (False, s\<lparr>m_motorsData := motorsData\<rparr>)
          else do {
            let (ok2, jointsData) = push_back_row (m_jointsData s) fingerJointsValuesEigen;
            if \<not> ok2 then Some (False, s\<lparr>m_motorsData := motorsData, m_jointsData := jointsData\<rparr>)
            else do {
              velocityReference \<leftarrow>
                (if generateRandomVelocity
                 then do {
                   drawn \<leftarrow> random_loop (getVelocityLimits (m_controlHelper s)) rnd [0..<noAxis]
                              (motorVelocityReference s);
                   limit00 \<leftarrow> entry (getVelocityLimits (m_controlHelper s)) 0 0;
                   limit01 \<leftarrow> entry (getVelocityLimits (m_controlHelper s)) 0 1;
                   drawn0 \<leftarrow> elem drawn 0;
                   Some drawn
                 }
                 else Some (motorVelocityReference s));
              let (motorReference, integrator') = integrate integrator velocityReference;
              motorReference0 \<leftarrow> elem motorReference 0;
              (ok, s') \<leftarrow> setFingersAxisReference motorReference
                            (s\<lparr>m_motorsData := motorsData, m_jointsData := jointsData,
                               motorVelocityReference := velocityReference,
                               m_fingerIntegrator := Some integrator'\<rparr>);
              Some (True, move s')
            }
          }
        })"

text \<open>
  The sinusoidal variant: the reference is 0 on every axis but \<^verbatim>\<open>axisNumber\<close>, where it is
  \<^verbatim>\<open>M_PI_4 + M_PI_4 * sin(time)\<close>.
\<close>

definition LogDataToCalibrateRobotMotorsJointsCouplingSin ::
  "real \<Rightarrow> int \<Rightarrow> FingersRetargeting \<Rightarrow> (bool \<times> FingersRetargeting) option" where
  "LogDataToCalibrateRobotMotorsJointsCouplingSin time axisNumber s =
     (if \<not> m_motorJointsCoupled s then Some (True, s)
      else if \<not> m_doCalibration s then Some (True, s)
      else case m_fingerIntegrator s of
        None \<Rightarrow> Some (False, s)
      | Some integrator \<Rightarrow> do {
          let fingerAxisValues = getFingerAxisMeasuredValues s;
          let fingerJointsValues = getFingerJointsMeasuredValues s;
          let noJoints = getNumberOfJoints (m_controlHelper s);
          let noAxis = getActuatedDoFs (m_controlHelper s);
          fingerAxisValuesEigen \<leftarrow> read_prefix noAxis fingerAxisValues;
          fingerJointsValuesEigen \<leftarrow> read_prefix noJoints fingerJointsValues;
          let (ok1, motorsData) = push_back_row (m_motorsData s) fingerAxisValuesEigen;
          if \<not> ok1 then Some (False, s\<lparr>m_motorsData := motorsData\<rparr>)
          else do {
            let (ok2, jointsData) = push_back_row (m_jointsData s) fingerJointsValuesEigen;
            if \<not> ok2 then Some (False, s\<lparr>m_motorsData := motorsData, m_jointsData := jointsData\<rparr>)
            else if axisNumber < 0 \<or> int noAxis \<le> axisNumber then None
            else do {
              let motorReference = (replicate noAxis 0)[nat axisNumber := pi / 4 + pi / 4 * sin time];
              (ok, s') \<leftarrow> setFingersAxisReference motorReference
                            (s\<lparr>m_motorsData := motorsData, m_jointsData := jointsData\<rparr>);
              Some (True, move s')
            }
          }
        })"

text \<open>
  The loop of \<^verbatim>\<open>trainCouplingMatrix\<close>: \<^verbatim>\<open>tetha_i = coeff * m_jointsData.col(i)\<close>, pushed as a
  row onto \<^verbatim>\<open>m_A\<close>; the status of \<^verbatim>\<open>push_back_row\<close> is dropped.
\<close>

fun train_loop :: "matrix \<Rightarrow> matrix \<Rightarrow> nat list \<Rightarrow> matrix \<Rightarrow> matrix option" where
  "train_loop coeff jointsData [] A = Some A"
| "train_loop coeff jointsData (i # is) A =
     (case col i jointsData of
        None \<Rightarrow> None
      | Some c \<Rightarrow>
          (case mat_vec coeff c of
             None \<Rightarrow> None
           | Some tetha_i \<Rightarrow> train_loop coeff jointsData is (snd (push_back_row A tetha_i))))"

text \<open>
  The statements of \<^verbatim>\<open>trainCouplingMatrix\<close>, from the first to the closing brace: the result
  is the object as the last statement leaves it. Eigen's \<^verbatim>\<open>inverse()\<close> is the parameter
  \<open>inverseM\<close>. The determinant and the rank of \<^verbatim>\<open>xT_x\<close> are computed for the log only, and no
  statement branches on them.
\<close>

definition trainCouplingMatrix_statements ::
  "(matrix \<Rightarrow> matrix) \<Rightarrow> FingersRetargeting \<Rightarrow> FingersRetargeting option" where
  "trainCouplingMatrix_statements inverseM s = do {
     xT_x \<leftarrow> mult (transposeM (m_motorsData s)) (m_motorsData s);
     coeff \<leftarrow> mult (inverseM xT_x) (transposeM (m_motorsData s));
     A \<leftarrow> train_loop coeff (m_jointsData s) [0..<getNumberOfJoints (m_controlHelper s)] (m_A s);
     aT_a \<leftarrow> mult (transposeM A) A;
     controlCoeff \<leftarrow> mult (inverseM aT_a) (transposeM A);
     Some (s\<lparr>m_A := A, m_controlCoeff := controlCoeff\<rparr>)
   }"

text \<open>
  \<^verbatim>\<open>trainCouplingMatrix\<close> is declared to return \<^verbatim>\<open>bool\<close> and has no return statement on any
  path: when its statements have run, control flows off the end of the function, which
  is undefined. No call has a defined result.
\<close>

definition trainCouplingMatrix ::
  "(matrix \<Rightarrow> matrix) \<Rightarrow> FingersRetargeting \<Rightarrow> (bool \<times> FingersRetargeting) option" where
  "trainCouplingMatrix inverseM s =
     (case trainCouplingMatrix_statements inverseM s of
        None \<Rightarrow> None
      | Some s' \<Rightarrow> None)"

section \<open>HapticGloveModule\<close>

text \<open>
  The three states of \<^verbatim>\<open>HapticGloveFSM\<close> that the module uses; the enumeration itself is
  declared in a header that is not among the sources.
\<close>

datatype HapticGloveFSM = Configured | Running | InPreparation

record HapticGloveModule =
  m_dT :: real
  m_moveRobot :: bool
  m_enableLogger :: bool
  m_state :: HapticGloveFSM
  m_leftHandFingers :: FingersRetargeting
  m_rightHandFingers :: FingersRetargeting
  m_timeStarting :: real
  m_timeNow :: real
  m_icubLeftFingerAxisReference :: vec
  m_icubLeftFingerAxisFeedback :: vec
  m_icubLeftFingerJointsReference :: vec
  m_icubLeftFingerJointsFeedback :: vec
  m_icubRightFingerAxisReference :: vec
  m_icubRightFingerAxisFeedback :: vec
  m_icubRightFingerJointsReference :: vec
  m_icubRightFingerJointsFeedback :: vec

text \<open>
  What \<^verbatim>\<open>HapticGloveModule::configure\<close> reads from the resource finder: whether it is
  empty, the module's name, the entries of the group GENERAL (with their defaults 0.1,
  true and false), and the two retargeting groups with the general options appended.
\<close>

record module_config =
  rf_isNull :: bool
  rf_name :: "string option"
  general_samplingTime :: "real option"
  general_enableMoveRobot :: "bool option"
  general_enableLogger :: "bool option"
  leftFingersOptions :: config
  rightFingersOptions :: config

text \<open>
  \<open>None\<close> is the return value false. \<^verbatim>\<open>openLogger\<close> returns true on both sides of its
  \<^verbatim>\<open>#ifdef\<close>, and the log file it opens is not part of the state.
\<close>

definition configureModule ::
  "module_config \<Rightarrow> (vec \<times> vec) option \<Rightarrow> (vec \<times> vec) option \<Rightarrow> HapticGloveModule option" where
  "configureModule rf leftReading rightReading =
     (if rf_isNull rf then None
      else case rf_name rf of
        None \<Rightarrow> None
      | Some name \<Rightarrow>
          (case configure (leftFingersOptions rf) leftReading of
             None \<Rightarrow> None
           | Some left \<Rightarrow>
               (case configure (rightFingersOptions rf) rightReading of
                  None \<Rightarrow> None
                | Some right \<Rightarrow>
                    Some \<lparr>m_dT = (case general_samplingTime rf of None \<Rightarrow> 0.1 | Some dT \<Rightarrow> dT),
                          m_moveRobot = (case general_enableMoveRobot rf of None \<Rightarrow> True | Some b \<Rightarrow> b),
                          m_enableLogger = (case general_enableLogger rf of None \<Rightarrow> False | Some b \<Rightarrow> b),
                          m_state = Configured,
                          m_leftHandFingers = left,
                          m_rightHandFingers = right,
                          m_timeStarting = 0,
                          m_timeNow = 0,
                          m_icubLeftFingerAxisReference =
                            replicate (getActuatedDoFs (m_controlHelper left)) 0,
                          m_icubLeftFingerAxisFeedback =
                            replicate (getActuatedDoFs (m_controlHelper left)) 0,
                          m_icubLeftFingerJointsReference =
                            replicate (getNumberOfJoints (m_controlHelper left)) 0,
                          m_icubLeftFingerJointsFeedback =
                            replicate (getNumberOfJoints (m_controlHelper left)) 0,
                          m_icubRightFingerAxisReference =
                            replicate (getActuatedDoFs (m_controlHelper right)) 0,
                          m_icubRightFingerAxisFeedback =
                            replicate (getActuatedDoFs (m_controlHelper right)) 0,
                          m_icubRightFingerJointsReference =
                            replicate (getNumberOfJoints (m_controlHelper right)) 0,
                          m_icubRightFingerJointsFeedback =
                            replicate (getNumberOfJoints (m_controlHelper right)) 0\<rparr>)))"

text \<open>
  \<^verbatim>\<open>getFeedbacks\<close> updates and copies the feedback of the left hand, logs when the update
  fails, and returns true. The argument is what the sensors of the left hand deliver.
\<close>

definition getFeedbacks :: "(vec \<times> vec) option \<Rightarrow> HapticGloveModule \<Rightarrow> bool \<times> HapticGloveModule" where
  "getFeedbacks reading m =
     (let (ok, left) = updateFeedback reading (m_leftHandFingers m)
      in (True, m\<lparr>m_leftHandFingers := left,
                  m_icubLeftFingerAxisFeedback := getFingerAxisMeasuredValues left,
                  m_icubLeftFingerJointsFeedback := getFingerJointsMeasuredValues left\<rparr>))"

text \<open>
  The loop of the running state, over the indices still to visit:
  \<^verbatim>\<open>left(i) = M_PI_4 + M_PI_4 * sin(...); right(i) = left(i);\<close>
\<close>

fun reference_loop :: "real \<Rightarrow> nat list \<Rightarrow> vec \<Rightarrow> vec \<Rightarrow> (vec \<times> vec) option" where
  "reference_loop x [] left right = Some (left, right)"
| "reference_loop x (i # is) left right =
     (if i < length left \<and> i < length right
      then reference_loop x is (left[i := x]) (right[i := (left[i := x]) ! i])
      else None)"

text \<open>
  One cycle. \<open>now\<close> is what \<^verbatim>\<open>yarp::os::Time::now()\<close> returns in this cycle and \<open>reading\<close>
  what the sensors of the left hand deliver. The records handed to the logger when
  \<^verbatim>\<open>ENABLE_LOGGER\<close> and \<^verbatim>\<open>m_enableLogger\<close> are set are output, not state.
\<close>

definition updateModule ::
  "real \<Rightarrow> (vec \<times> vec) option \<Rightarrow> HapticGloveModule \<Rightarrow> (bool \<times> HapticGloveModule) option" where
  "updateModule now reading m0 =
     (let (ok, m) = getFeedbacks reading m0
      in if \<not> ok then Some (False, m)
      else if m_state m = Running then do {
        let timeNow = now;
        let noLeftFingersAxis = getActuatedDoFs (m_controlHelper (m_leftHandFingers m));
        (leftRef, rightRef) \<leftarrow>
          reference_loop (pi / 4 + pi / 4 * sin (timeNow - m_timeStarting m))
            [0..<noLeftFingersAxis]
            (m_icubLeftFingerAxisReference m) (m_icubRightFingerAxisReference m);
        (okLeft, left) \<leftarrow> setFingersAxisReference leftRef (m_leftHandFingers m);
        (okRight, right) \<leftarrow> setFingersAxisReference rightRef (m_rightHandFingers m);
        Some (True, m\<lparr>m_timeNow := timeNow,
                       m_icubLeftFingerAxisReference := leftRef,
                       m_icubRightFingerAxisReference := rightRef,
                       m_leftHandFingers := move left,
                       m_rightHandFingers := move right\<rparr>)
      }
      else if m_state m = Configured then Some (True, m\<lparr>m_state := InPreparation\<rparr>)
      else if m_state m = InPreparation
        then Some (True, m\<lparr>m_timeStarting := now, m_state := Running\<rparr>)
      else Some (True, m))"

text \<open>
  The periodic caller: one cycle per element of the list of clock values and sensor
  readings, for as long as \<^verbatim>\<open>updateModule\<close> returns true.
\<close>

fun run_cycles :: "(real \<times> (vec \<times> vec) option) list \<Rightarrow> HapticGloveModule \<Rightarrow> HapticGloveModule option" where
  "run_cycles [] m = Some m"
| "run_cycles ((now, reading) # rest) m =
     (case updateModule now reading m of
        None \<Rightarrow> None
      | Some (ok, m') \<Rightarrow> if ok then run_cycles rest m' else Some m')"

section \<open>Sessions, invariants and the estimator of the specification\<close>

text \<open>
  A calibration session after \<^verbatim>\<open>configure\<close>: the upper level updates the feedback and calls
  the two record operations in any order. The session goes on whatever status an
  operation returns, and is undefined as soon as one operation is.
\<close>

datatype session_step =
    UpdateFeedback "(vec \<times> vec) option"
  | RecordRandom "nat \<Rightarrow> real" bool
  | RecordSin real int

fun apply_step ::
  "(Integrator \<Rightarrow> vec \<Rightarrow> vec \<times> Integrator) \<Rightarrow> session_step \<Rightarrow> FingersRetargeting \<Rightarrow>
     (bool \<times> FingersRetargeting) option" where
  "apply_step integrate (UpdateFeedback reading) s = Some (updateFeedback reading s)"
| "apply_step integrate (RecordRandom rnd generateRandomVelocity) s =
     LogDataToCalibrateRobotMotorsJointsCouplingRandom integrate rnd generateRandomVelocity s"
| "apply_step integrate (RecordSin time axisNumber) s =
     LogDataToCalibrateRobotMotorsJointsCouplingSin time axisNumber s"

fun run_session ::
  "(Integrator \<Rightarrow> vec \<Rightarrow> vec \<times> Integrator) \<Rightarrow> session_step list \<Rightarrow> FingersRetargeting \<Rightarrow>
     FingersRetargeting option" where
  "run_session integrate [] s = Some s"
| "run_session integrate (step # steps) s =
     (case apply_step integrate step s of
        None \<Rightarrow> None
      | Some (ok, s') \<Rightarrow> run_session integrate steps s')"

fun is_record :: "session_step \<Rightarrow> bool" where
  "is_record (UpdateFeedback reading) = False"
| "is_record (RecordRandom rnd generateRandomVelocity) = True"
| "is_record (RecordSin time axisNumber) = True"

text \<open>
  The sizes that \<^verbatim>\<open>configure\<close> establishes and every operation keeps: the scaling and the
  desired motor command have one entry per axis, the desired joint vector one per joint,
  the integrator exists, and the two sample logs are rectangular and one axis vector,
  respectively one joint vector, wide.
\<close>

definition configured :: "FingersRetargeting \<Rightarrow> bool" where
  "configured s \<longleftrightarrow>
     length (m_fingersScaling s) = getActuatedDoFs (m_controlHelper s) \<and>
     length (m_desiredMotorValue s) = getActuatedDoFs (m_controlHelper s) \<and>
     length (m_desiredJointValue s) = getNumberOfJoints (m_controlHelper s) \<and>
     m_fingerIntegrator s \<noteq> None \<and>
     cols (m_motorsData s) = getActuatedDoFs (m_controlHelper s) \<and>
     cols (m_jointsData s) = getNumberOfJoints (m_controlHelper s) \<and>
     rect (m_motorsData s) \<and> rect (m_jointsData s)"

text \<open>
  The state once the two record operations have pushed their rows: the first entries of
  the cached axis measurements, one per axis, at the end of the motor log, and the first
  entries of the cached joint measurements, one per joint, at the end of the joint log.
\<close>

definition with_sample :: "FingersRetargeting \<Rightarrow> FingersRetargeting" where
  "with_sample s =
     s\<lparr>m_motorsData :=
         \<lparr>cols = cols (m_motorsData s),
          rowlist = rowlist (m_motorsData s) @
            [take (getActuatedDoFs (m_controlHelper s)) (jointEncoders (m_controlHelper s))]\<rparr>,
       m_jointsData :=
         \<lparr>cols = cols (m_jointsData s),
          rowlist = rowlist (m_jointsData s) @
            [take (getNumberOfJoints (m_controlHelper s)) (analogSensors (m_controlHelper s))]\<rparr>\<rparr>"

text \<open>
  The sizes that \<^verbatim>\<open>HapticGloveModule::configure\<close> establishes, and that the right hand has at
  least as many axes as the left one: the loop of the running state writes the right
  reference at every index of the left one.
\<close>

definition module_ok :: "HapticGloveModule \<Rightarrow> bool" where
  "module_ok m \<longleftrightarrow>
     configured (m_leftHandFingers m) \<and> configured (m_rightHandFingers m) \<and>
     length (m_icubLeftFingerAxisReference m) = getActuatedDoFs (m_controlHelper (m_leftHandFingers m)) \<and>
     length (m_icubRightFingerAxisReference m) = getActuatedDoFs (m_controlHelper (m_rightHandFingers m)) \<and>
     getActuatedDoFs (m_controlHelper (m_leftHandFingers m))
       \<le> getActuatedDoFs (m_controlHelper (m_rightHandFingers m))"

text \<open>The state of the scheduler after \<open>n\<close> cycles from \<open>Configured\<close>, as the specification gives it.\<close>

fun fsm_after :: "nat \<Rightarrow> HapticGloveFSM" where
  "fsm_after 0 = Configured"
| "fsm_after (Suc 0) = InPreparation"
| "fsm_after (Suc (Suc n)) = Running"

text \<open>What is assumed of Eigen's \<^verbatim>\<open>inverse()\<close>: the result has the shape of the argument.\<close>

definition shape_preserving :: "(matrix \<Rightarrow> matrix) \<Rightarrow> bool" where
  "shape_preserving inverseM \<longleftrightarrow> (\<forall>m. cols (inverseM m) = cols m \<and> rows (inverseM m) = rows m)"

text \<open>
  The estimator in the words of the specification, section 4.1:
  \<open>pinv(X) = (X\<^sup>t X)\<^sup>-\<^sup>1 X\<^sup>t\<close>, \<open>coeff = pinv(motorsData)\<close>, one vector
  \<open>coeff \<cdot> jointsData[:,j]\<close> per joint \<open>j\<close> assembled row by row into \<open>A\<close>, and
  \<open>controlCoeff = pinv(A)\<close>.
\<close>

definition pinv_spec :: "(matrix \<Rightarrow> matrix) \<Rightarrow> matrix \<Rightarrow> matrix option" where
  "pinv_spec inverseM x =
     (case mult (transposeM x) x of
        None \<Rightarrow> None
      | Some xT_x \<Rightarrow> mult (inverseM xT_x) (transposeM x))"

definition estimateCoupling_spec ::
  "(matrix \<Rightarrow> matrix) \<Rightarrow> matrix \<Rightarrow> matrix \<Rightarrow> nat \<Rightarrow> (matrix \<times> matrix) option" where
  "estimateCoupling_spec inverseM motorsData jointsData noJoints =
     (case pinv_spec inverseM motorsData of
        None \<Rightarrow> None
      | Some coeff \<Rightarrow>
          let A = \<lparr>cols = cols motorsData,
                   rowlist = map (\<lambda>j. map (\<lambda>r. dot r (column j jointsData)) (rowlist coeff))
                               [0..<noJoints]\<rparr>
          in (case pinv_spec inverseM A of
                None \<Rightarrow> None
              | Some controlCoeff \<Rightarrow> Some (A, controlCoeff)))"

text \<open>
  The degenerate sample logs of the specification, section 8: "all identical rows, or
  fewer samples than axes".
\<close>

definition degenerate :: "matrix \<Rightarrow> bool" where
  "degenerate m \<longleftrightarrow>
     rows m < cols m \<or> (\<forall>r \<in> set (rowlist m). \<forall>r' \<in> set (rowlist m). r = r')"

definition shape :: "matrix \<Rightarrow> nat \<times> nat" where
  "shape m = (rows m, cols m)"

text \<open>The shapes of the two matrices that the statements of training store.\<close>

definition stored_shapes :: "FingersRetargeting \<Rightarrow> (nat \<times> nat) \<times> (nat \<times> nat)" where
  "stored_shapes s = (shape (m_A s), shape (m_controlCoeff s))"

subsection \<open>Example data\<close>

text \<open>
  The inverse of a \<open>1 \<times> 1\<close> and of a \<open>2 \<times> 2\<close> matrix by the adjugate formula, to run
  the statements of \<^verbatim>\<open>trainCouplingMatrix\<close> on small logs. On a singular matrix the division by the
  determinant is HOL's total division; the entries that Eigen returns there are not
  finite doubles, and the examples below look only at the shape of such a result.
\<close>

definition inverse_small :: "matrix \<Rightarrow> matrix" where
  "inverse_small m =
     (case rowlist m of
        [[a]] \<Rightarrow> \<lparr>cols = cols m, rowlist = [[1 / a]]\<rparr>
      | [[a, b], [c, d]] \<Rightarrow>
          \<lparr>cols = cols m,
           rowlist = [[d / (a * d - b * c), - b / (a * d - b * c)],
                      [- c / (a * d - b * c), a / (a * d - b * c)]]\<rparr>
      | _ \<Rightarrow> m)"

text \<open>A hand with two axes and three joints, coupled and in calibration mode.\<close>

definition example_helper :: RobotControlHelper where
  "example_helper =
     \<lparr>getActuatedDoFs = 2, getNumberOfJoints = 3,
      getLimits = Some \<lparr>cols = 2, rowlist = [[0, 1], [0, 1]]\<rparr>,
      getVelocityLimits = \<lparr>cols = 2, rowlist = [[- 1, 1], [- 1, 1]]\<rparr>,
      jointEncoders = [1, 0], analogSensors = [1, 0, 1], lastCommand = None\<rparr>"

definition example_config :: config where
  "example_config =
     \<lparr>cfg_controlHelper = Some example_helper, cfg_samplingTime = Some (1 / 100),
      cfg_fingersScaling = Some [2, 3], cfg_motorsJointsCoupled = True,
      cfg_doCalibration = True, cfg_CouplingMatrix = None\<rparr>"

definition example_hand :: FingersRetargeting where
  "example_hand =
     \<lparr>m_controlHelper = example_helper,
      m_fingersScaling = [2, 3],
      m_motorJointsCoupled = True,
      m_doCalibration = True,
      m_A = empty_matrix,
      m_controlCoeff = empty_matrix,
      m_desiredMotorValue = [0, 0],
      m_desiredJointValue = [0, 0, 0],
      m_fingerIntegrator =
        Some \<lparr>int_Ts = 1 / 100, int_y = [1, 0], int_lim = \<lparr>cols = 2, rowlist = [[0, 1], [0, 1]]\<rparr>\<rparr>,
      m_jointsData = \<lparr>cols = 3, rowlist = []\<rparr>,
      m_motorsData = \<lparr>cols = 2, rowlist = []\<rparr>,
      motorVelocityReference = []\<rparr>"

text \<open>The same hand after two samples that excite the two axes one at a time.\<close>

definition excited_hand :: FingersRetargeting where
  "excited_hand =
     example_hand\<lparr>m_motorsData := \<lparr>cols = 2, rowlist = [[1, 0], [0, 1]]\<rparr>,
                  m_jointsData := \<lparr>cols = 3, rowlist = [[1, 0, 1], [0, 1, 1]]\<rparr>\<rparr>"

text \<open>The same hand after two samples without excitation: twice the same row.\<close>

definition unexcited_hand :: FingersRetargeting where
  "unexcited_hand =
     example_hand\<lparr>m_motorsData := \<lparr>cols = 2, rowlist = [[1, 2], [1, 2]]\<rparr>,
                  m_jointsData := \<lparr>cols = 3, rowlist = [[1, 2, 3], [1, 2, 3]]\<rparr>\<rparr>"

text \<open>The same hand after a single sample: fewer samples than axes.\<close>

definition undersampled_hand :: FingersRetargeting where
  "undersampled_hand =
     example_hand\<lparr>m_motorsData := \<lparr>cols = 2, rowlist = [[1, 0]]\<rparr>,
                  m_jointsData := \<lparr>cols = 3, rowlist = [[1, 0, 1]]\<rparr>\<rparr>"

text \<open>The same hand configured without calibration, the coupling matrix read from the configuration.\<close>

definition idle_config :: config where
  "idle_config =
     example_config\<lparr>cfg_doCalibration := False, cfg_CouplingMatrix := Some [1, 0, 0, 1, 1, 1]\<rparr>"

definition idle_hand :: FingersRetargeting where
  "idle_hand =
     example_hand\<lparr>m_doCalibration := False,
                  m_A := \<lparr>cols = 2, rowlist = [[1, 0], [0, 1], [1, 1]]\<rparr>\<rparr>"

definition example_module :: HapticGloveModule where
  "example_module =
     \<lparr>m_dT = 1 / 10, m_moveRobot = True, m_enableLogger = False, m_state = Configured,
      m_leftHandFingers = example_hand, m_rightHandFingers = example_hand,
      m_timeStarting = 0, m_timeNow = 0,
      m_icubLeftFingerAxisReference = [0, 0],
      m_icubLeftFingerAxisFeedback = [0, 0],
      m_icubLeftFingerJointsReference = [0, 0, 0],
      m_icubLeftFingerJointsFeedback = [0, 0, 0],
      m_icubRightFingerAxisReference = [0, 0],
      m_icubRightFingerAxisFeedback = [0, 0],
      m_icubRightFingerJointsReference = [0, 0, 0],
      m_icubRightFingerJointsFeedback = [0, 0, 0]\<rparr>"

text \<open>The example module in the running state, started at time 11.\<close>

definition running_module :: HapticGloveModule where
  "running_module = example_module\<lparr>m_state := Running, m_timeStarting := 11\<rparr>"

text \<open>
  The excited hand as the statements of \<^verbatim>\<open>trainCouplingMatrix\<close> leave it, with the
  matrices that the exact inverse gives.
\<close>

definition trained_hand :: FingersRetargeting where
  "trained_hand =
     excited_hand\<lparr>m_A := \<lparr>cols = 2, rowlist = [[1, 0], [0, 1], [1, 1]]\<rparr>,
                  m_controlCoeff :=
                    \<lparr>cols = 3, rowlist = [[2 / 3, - 1 / 3, 1 / 3], [- 1 / 3, 2 / 3, 1 / 3]]\<rparr>\<rparr>"

section \<open>Properties\<close>

lemma scale_loop_from:
  assumes "length fingersReference = n" "n \<le> length scaling" "length desired = n" "k \<le> n"
  shows "scale_loop fingersReference scaling [k..<n] desired =
           Some (take k desired @ map (\<lambda>i. fingersReference ! i * scaling ! i) [k..<n])"
  using assms
proof (induction "n - k" arbitrary: k desired)
  case 0
  then show ?case by simp
next
  case (Suc d)
  then have k: "k < n" by simp
  let ?d' = "desired[k := fingersReference ! k * scaling ! k]"
  have step: "scale_loop fingersReference scaling [k..<n] desired =
                scale_loop fingersReference scaling [Suc k..<n] ?d'"
    using k Suc.prems by (simp add: upt_conv_Cons)
  have ih: "scale_loop fingersReference scaling [Suc k..<n] ?d' =
              Some (take (Suc k) ?d' @ map (\<lambda>i. fingersReference ! i * scaling ! i) [Suc k..<n])"
    using Suc.hyps(1)[of "Suc k" ?d'] Suc.hyps(2) Suc.prems k by simp
  have "take (Suc k) ?d' = take k desired @ [fingersReference ! k * scaling ! k]"
    using k Suc.prems by (simp add: take_Suc_conv_app_nth)
  then show ?case
    using step ih k by (simp add: upt_conv_Cons)
qed

lemma scale_loop_closed:
  assumes "length fingersReference = length desired" "length scaling = length desired"
  shows "scale_loop fingersReference scaling [0..<length fingersReference] desired =
           Some (map2 (*) fingersReference scaling)"
proof -
  have "map (\<lambda>i. fingersReference ! i * scaling ! i) [0..<length desired] =
          map2 (*) fingersReference scaling"
    using assms by (intro nth_equalityI) simp_all
  then show ?thesis
    using scale_loop_from[of fingersReference "length desired" scaling desired 0] assms by simp
qed

subsection \<open>Setting references\<close>

lemma scale_loop_length:
  "scale_loop r sc is d = Some d' \<Longrightarrow> length d' = length d"
  by (induction "is" arbitrary: d) (auto split: if_splits)

lemma setFingersAxisReference_frame:
  assumes "setFingersAxisReference v s = Some (ok, s')"
  shows "\<exists>d. s' = s\<lparr>m_desiredMotorValue := d\<rparr> \<and> length d = length (m_desiredMotorValue s)"
proof (cases "length v = length (m_desiredMotorValue s)")
  case False
  with assms have "s' = s" by (simp add: setFingersAxisReference_def)
  then have "s' = s\<lparr>m_desiredMotorValue := m_desiredMotorValue s\<rparr>" by simp
  then show ?thesis by blast
next
  case True
  with assms obtain d where d: "scale_loop v (m_fingersScaling s) [0..<length v] (m_desiredMotorValue s) = Some d"
    and s': "s' = s\<lparr>m_desiredMotorValue := d\<rparr>"
    by (auto simp: setFingersAxisReference_def bind_eq_Some_conv)
  from scale_loop_length[OF d] s' show ?thesis by blast
qed

lemma setFingersAxisReference_defined:
  assumes "length (m_desiredMotorValue s) \<le> length (m_fingersScaling s)"
  shows "\<exists>ok s'. setFingersAxisReference v s = Some (ok, s')"
proof (cases "length v = length (m_desiredMotorValue s)")
  case False
  then have "setFingersAxisReference v s = Some (False, s)"
    by (simp add: setFingersAxisReference_def)
  then show ?thesis by blast
next
  case True
  have "length v \<le> length (m_fingersScaling s)" "length (m_desiredMotorValue s) = length v"
    using True assms by simp_all
  then have "\<exists>d. scale_loop v (m_fingersScaling s) [0..<length v] (m_desiredMotorValue s) = Some d"
    using scale_loop_from[OF refl, of v "m_fingersScaling s" "m_desiredMotorValue s" 0] by blast
  then obtain d where "scale_loop v (m_fingersScaling s) [0..<length v] (m_desiredMotorValue s) = Some d"
    by blast
  then have "setFingersAxisReference v s = Some (True, s\<lparr>m_desiredMotorValue := d\<rparr>)"
    using True by (simp add: setFingersAxisReference_def)
  then show ?thesis by blast
qed

lemma example_hand_configured: "configured example_hand"
  by (simp add: configured_def example_hand_def example_helper_def rect_def)

lemma configure_example:
  "configure example_config (Some ([1, 0], [1, 0, 1])) = Some example_hand"
  by (simp add: configure_def example_config_def example_hand_def example_helper_def
      getYarpVectorFromSearchable_def getFeedback_def empty_matrix_def eval_nat_numeral)

lemma trained_hand_configured: "configured trained_hand"
  by (simp add: configured_def trained_hand_def excited_hand_def example_hand_def
      example_helper_def rect_def)

text \<open>
  C3. In a configured hand, \<^verbatim>\<open>setFingersAxisReference\<close> on a vector with one entry per axis
  returns true and stores, as the desired motor command, the vector whose \<open>i\<close>-th entry is
  the \<open>i\<close>-th entry of the argument times the \<open>i\<close>-th entry of the scaling vector, and
  nothing else changes. A second call with the same vector returns true and leaves the
  state exactly as the first call left it.
\<close>

theorem setFingersAxisReference_scales:
  assumes "configured s" and "length v = getActuatedDoFs (m_controlHelper s)"
  shows "\<exists>s'. setFingersAxisReference v s = Some (True, s') \<and>
              s' = s\<lparr>m_desiredMotorValue := map2 (*) v (m_fingersScaling s)\<rparr> \<and>
              (\<forall>i < length v. m_desiredMotorValue s' ! i = v ! i * m_fingersScaling s ! i) \<and>
              setFingersAxisReference v s' = Some (True, s')"
proof -
  let ?s' = "s\<lparr>m_desiredMotorValue := map2 (*) v (m_fingersScaling s)\<rparr>"
  have len: "length v = length (m_desiredMotorValue s)" "length (m_fingersScaling s) = length (m_desiredMotorValue s)"
    using assms by (simp_all add: configured_def)
  have first: "setFingersAxisReference v s = Some (True, ?s')"
    using len scale_loop_closed[of v "m_desiredMotorValue s" "m_fingersScaling s"]
    by (simp add: setFingersAxisReference_def)
  have len': "length v = length (m_desiredMotorValue ?s')" "length (m_fingersScaling ?s') = length (m_desiredMotorValue ?s')"
    using len by simp_all
  have second: "setFingersAxisReference v ?s' = Some (True, ?s')"
    using len' scale_loop_closed[of v "m_desiredMotorValue ?s'" "m_fingersScaling ?s'"]
    by (simp add: setFingersAxisReference_def)
  have "\<forall>i < length v. m_desiredMotorValue ?s' ! i = v ! i * m_fingersScaling s ! i"
    using len by simp
  with first second show ?thesis by blast
qed

theorem setFingersAxisReference_scales_witness:
  "configured example_hand \<and>
   length [1, 2 :: real] = getActuatedDoFs (m_controlHelper example_hand) \<and>
   setFingersAxisReference [1, 2] example_hand
     = Some (True, example_hand\<lparr>m_desiredMotorValue := [2, 6]\<rparr>) \<and>
   setFingersAxisReference [1, 2] (example_hand\<lparr>m_desiredMotorValue := [2, 6]\<rparr>)
     = Some (True, example_hand\<lparr>m_desiredMotorValue := [2, 6]\<rparr>)"
proof -
  have c: "configured example_hand" by (rule example_hand_configured)
  have l: "length [1, 2 :: real] = getActuatedDoFs (m_controlHelper example_hand)"
    by (simp add: example_hand_def example_helper_def)
  have m: "map2 (*) [1, 2] (m_fingersScaling example_hand) = [2, 6]"
    by (simp add: example_hand_def)
  show ?thesis using setFingersAxisReference_scales[OF c l] c l m by simp
qed

text \<open>
  C4. \<^verbatim>\<open>setFingersAxisReference\<close> on a vector whose size is not that of the stored motor
  command, and \<^verbatim>\<open>setFingersJointReference\<close> on a vector whose size is not that of the
  stored joint vector, return false and leave the whole state, the stored references
  included, as it was. In a configured hand these two sizes are the number of axes and
  the number of joints.
\<close>

theorem setters_reject_wrong_size:
  "(length v \<noteq> length (m_desiredMotorValue s) \<longrightarrow> setFingersAxisReference v s = Some (False, s)) \<and>
   (length v \<noteq> length (m_desiredJointValue s) \<longrightarrow> setFingersJointReference v s = Some (False, s)) \<and>
   (configured s \<longrightarrow>
      (length v \<noteq> getActuatedDoFs (m_controlHelper s) \<longrightarrow> setFingersAxisReference v s = Some (False, s)) \<and>
      (length v \<noteq> getNumberOfJoints (m_controlHelper s) \<longrightarrow> setFingersJointReference v s = Some (False, s)))"
  by (simp add: setFingersAxisReference_def setFingersJointReference_def configured_def)


theorem setters_reject_wrong_size_witness:
  "configured example_hand \<and>
   length [1 :: real] \<noteq> getActuatedDoFs (m_controlHelper example_hand) \<and>
   length [1 :: real] \<noteq> getNumberOfJoints (m_controlHelper example_hand) \<and>
   setFingersAxisReference [1] example_hand = Some (False, example_hand) \<and>
   setFingersJointReference [1] example_hand = Some (False, example_hand)"
proof -
  have c: "configured example_hand" by (rule example_hand_configured)
  have l: "length [1 :: real] \<noteq> getActuatedDoFs (m_controlHelper example_hand)"
      "length [1 :: real] \<noteq> getNumberOfJoints (m_controlHelper example_hand)"
    by (simp_all add: example_hand_def example_helper_def)
  show ?thesis using setters_reject_wrong_size[of "[1]" example_hand] c l by simp
qed

text \<open>
  With a control coefficient that has one row per axis and one column per joint,
  \<^verbatim>\<open>setFingersJointReference\<close> on a vector with one entry per joint forms the matrix-vector
  product of \<^verbatim>\<open>m_controlCoeff\<close> and the vector and hands it to \<^verbatim>\<open>setFingersAxisReference\<close>:
  its result is that call's state with the status true, which is the scaled product
  stored as the desired motor command.
\<close>

lemma setFingersJointReference_projects:
  assumes "configured s"
      and "length v = getNumberOfJoints (m_controlHelper s)"
      and "cols (m_controlCoeff s) = getNumberOfJoints (m_controlHelper s)"
      and "rows (m_controlCoeff s) = getActuatedDoFs (m_controlHelper s)"
  shows "mat_vec (m_controlCoeff s) v = Some (map (\<lambda>r. dot r v) (rowlist (m_controlCoeff s))) \<and>
         setFingersJointReference v s =
           map_option (\<lambda>(ok, s'). (True, s'))
             (setFingersAxisReference (map (\<lambda>r. dot r v) (rowlist (m_controlCoeff s))) s) \<and>
         setFingersJointReference v s =
           Some (True, s\<lparr>m_desiredMotorValue :=
                           map2 (*) (map (\<lambda>r. dot r v) (rowlist (m_controlCoeff s))) (m_fingersScaling s)\<rparr>)"
proof -
  let ?motorRef = "map (\<lambda>r. dot r v) (rowlist (m_controlCoeff s))"
  have mv: "mat_vec (m_controlCoeff s) v = Some ?motorRef"
    using assms by (simp add: mat_vec_def)
  have lens: "length v = length (m_desiredJointValue s)"
      "length ?motorRef = length (m_desiredMotorValue s)"
      "length (m_fingersScaling s) = length (m_desiredMotorValue s)"
    using assms by (simp_all add: configured_def rows_def)
  have rp: "read_prefix (getNumberOfJoints (m_controlHelper s)) v = Some v"
      "read_prefix (getActuatedDoFs (m_controlHelper s)) ?motorRef = Some ?motorRef"
    using assms by (simp_all add: read_prefix_def rows_def)
  have deleg: "setFingersJointReference v s =
                 map_option (\<lambda>(ok, s'). (True, s')) (setFingersAxisReference ?motorRef s)"
    using lens(1) rp mv
    by (cases "setFingersAxisReference ?motorRef s") (auto simp: setFingersJointReference_def)
  have axis: "setFingersAxisReference ?motorRef s =
                Some (True, s\<lparr>m_desiredMotorValue := map2 (*) ?motorRef (m_fingersScaling s)\<rparr>)"
    using lens(2,3) scale_loop_closed[of ?motorRef "m_desiredMotorValue s" "m_fingersScaling s"]
    by (simp add: setFingersAxisReference_def)
  show ?thesis using mv deleg axis by simp
qed

lemma setFingersJointReference_projects_example:
  "configured trained_hand \<and>
   length [1, 0, 1 :: real] = getNumberOfJoints (m_controlHelper trained_hand) \<and>
   cols (m_controlCoeff trained_hand) = getNumberOfJoints (m_controlHelper trained_hand) \<and>
   rows (m_controlCoeff trained_hand) = getActuatedDoFs (m_controlHelper trained_hand) \<and>
   mat_vec (m_controlCoeff trained_hand) [1, 0, 1] = Some [1, 0] \<and>
   setFingersJointReference [1, 0, 1] trained_hand
     = Some (True, trained_hand\<lparr>m_desiredMotorValue := [2, 0]\<rparr>)"
proof -
  have c: "configured trained_hand" by (rule trained_hand_configured)
  have l: "length [1, 0, 1 :: real] = getNumberOfJoints (m_controlHelper trained_hand)"
      "cols (m_controlCoeff trained_hand) = getNumberOfJoints (m_controlHelper trained_hand)"
      "rows (m_controlCoeff trained_hand) = getActuatedDoFs (m_controlHelper trained_hand)"
    by (simp_all add: trained_hand_def excited_hand_def example_hand_def example_helper_def rows_def)
  have p: "map (\<lambda>r. dot r [1, 0, 1]) (rowlist (m_controlCoeff trained_hand)) = [1, 0]"
    by (simp add: trained_hand_def dot_def)
  have m: "map2 (*) [1, 0] (m_fingersScaling trained_hand) = [2, 0]"
    by (simp add: trained_hand_def excited_hand_def example_hand_def)
  have "mat_vec (m_controlCoeff trained_hand) [1, 0, 1] = Some [1, 0] \<and>
        setFingersJointReference [1, 0, 1] trained_hand
          = Some (True, trained_hand\<lparr>m_desiredMotorValue := [2, 0]\<rparr>)"
    using setFingersJointReference_projects[OF c l] unfolding p m by blast
  then show ?thesis using c l by blast
qed

subsection \<open>The calibration session\<close>

text \<open>
  C8. When \<^verbatim>\<open>m_motorJointsCoupled\<close> is false or \<^verbatim>\<open>m_doCalibration\<close> is false, both record
  operations return true and the state after the call is the state before it: the sample
  logs, the stored references and the command the helper was last given are untouched.
\<close>

theorem calibration_ops_disabled_noop:
  assumes "\<not> m_motorJointsCoupled s \<or> \<not> m_doCalibration s"
  shows "LogDataToCalibrateRobotMotorsJointsCouplingRandom integrate rnd generateRandomVelocity s = Some (True, s) \<and>
         LogDataToCalibrateRobotMotorsJointsCouplingSin time axisNumber s = Some (True, s)"
  using assms
  by (auto simp: LogDataToCalibrateRobotMotorsJointsCouplingRandom_def
      LogDataToCalibrateRobotMotorsJointsCouplingSin_def)

theorem calibration_ops_disabled_noop_witness:
  "m_motorJointsCoupled idle_hand \<and> \<not> m_doCalibration idle_hand \<and>
   LogDataToCalibrateRobotMotorsJointsCouplingRandom (\<lambda>i v. (v, i)) (\<lambda>i. 1 / 2) True idle_hand
     = Some (True, idle_hand) \<and>
   LogDataToCalibrateRobotMotorsJointsCouplingSin 0 1 idle_hand = Some (True, idle_hand)"
proof -
  have h: "\<not> m_motorJointsCoupled idle_hand \<or> \<not> m_doCalibration idle_hand"
    by (simp add: idle_hand_def)
  show ?thesis
    using calibration_ops_disabled_noop[OF h, of "\<lambda>i v. (v, i)" "\<lambda>i. 1 / 2" True 0 1]
    by (simp add: idle_hand_def example_hand_def)
qed

lemma push_back_row_fits:
  "cols m = length v \<Longrightarrow> push_back_row m v = (True, \<lparr>cols = cols m, rowlist = rowlist m @ [v]\<rparr>)"
  by (simp add: push_back_row_def)

lemma updateFeedback_frame:
  "updateFeedback reading s = (ok, s') \<Longrightarrow>
     \<exists>enc ana. s' = s\<lparr>m_controlHelper := (m_controlHelper s)\<lparr>jointEncoders := enc, analogSensors := ana\<rparr>\<rparr>"
proof (cases reading)
  case None
  assume "updateFeedback reading s = (ok, s')"
  with None have "s' = s" by (simp add: updateFeedback_def getFeedback_def)
  then have "s' = s\<lparr>m_controlHelper := (m_controlHelper s)\<lparr>jointEncoders := jointEncoders (m_controlHelper s),
      analogSensors := analogSensors (m_controlHelper s)\<rparr>\<rparr>" by simp
  then show ?thesis by blast
next
  case (Some p)
  assume "updateFeedback reading s = (ok, s')"
  with Some show ?thesis
    by (cases p) (auto simp: updateFeedback_def getFeedback_def)
qed

lemma configured_updateFeedback:
  "configured s \<Longrightarrow> updateFeedback reading s = (ok, s') \<Longrightarrow> configured s'"
  by (drule updateFeedback_frame) (auto simp: configured_def)

lemma configured_setFingersAxisReference:
  "configured s \<Longrightarrow> setFingersAxisReference v s = Some (ok, s') \<Longrightarrow> configured s'"
  by (drule setFingersAxisReference_frame) (auto simp: configured_def)

lemma configured_move: "configured s \<Longrightarrow> configured (move s)"
  by (simp add: configured_def move_def)

lemma LogSin_calibrating:
  assumes "configured s" "m_motorJointsCoupled s" "m_doCalibration s"
  shows "LogDataToCalibrateRobotMotorsJointsCouplingSin time axisNumber s =
     (if length (jointEncoders (m_controlHelper s)) < getActuatedDoFs (m_controlHelper s) \<or>
         length (analogSensors (m_controlHelper s)) < getNumberOfJoints (m_controlHelper s) \<or>
         axisNumber < 0 \<or> int (getActuatedDoFs (m_controlHelper s)) \<le> axisNumber
      then None
      else map_option (\<lambda>(ok, s'). (True, move s'))
             (setFingersAxisReference
                ((replicate (getActuatedDoFs (m_controlHelper s)) 0)[nat axisNumber := pi / 4 + pi / 4 * sin time])
                (with_sample s)))"
proof -
  obtain integ where i: "m_fingerIntegrator s = Some integ"
    using assms(1) by (auto simp: configured_def)
  have c: "cols (m_motorsData s) = getActuatedDoFs (m_controlHelper s)"
      "cols (m_jointsData s) = getNumberOfJoints (m_controlHelper s)"
    using assms(1) by (simp_all add: configured_def)
  show ?thesis
    using assms(2,3) i c
    by (cases "setFingersAxisReference
                ((replicate (getActuatedDoFs (m_controlHelper s)) 0)[nat axisNumber := pi / 4 + pi / 4 * sin time])
                (with_sample s)")
       (auto simp: LogDataToCalibrateRobotMotorsJointsCouplingSin_def read_prefix_def
        push_back_row_fits getFingerAxisMeasuredValues_def getFingerJointsMeasuredValues_def with_sample_def Let_def)
qed


lemma set_move_frame:
  assumes "setFingersAxisReference v b = Some (ok, s0)"
  shows "\<exists>d. move s0 = b\<lparr>m_desiredMotorValue := d,
                          m_controlHelper := (m_controlHelper b)\<lparr>lastCommand := Some d\<rparr>\<rparr> \<and>
             length d = length (m_desiredMotorValue b)"
proof -
  from setFingersAxisReference_frame[OF assms] obtain d
    where "s0 = b\<lparr>m_desiredMotorValue := d\<rparr>" "length d = length (m_desiredMotorValue b)"
    by blast
  then have "move s0 = b\<lparr>m_desiredMotorValue := d,
                          m_controlHelper := (m_controlHelper b)\<lparr>lastCommand := Some d\<rparr>\<rparr> \<and>
             length d = length (m_desiredMotorValue b)"
    by (simp add: move_def)
  then show ?thesis by blast
qed

lemma configured_with_sample:
  assumes "configured s"
      and "getActuatedDoFs (m_controlHelper s) \<le> length (jointEncoders (m_controlHelper s))"
      and "getNumberOfJoints (m_controlHelper s) \<le> length (analogSensors (m_controlHelper s))"
  shows "configured (with_sample s)"
  using assms by (auto simp: configured_def with_sample_def rect_def)

lemma LogSin_effect:
  assumes "configured s" "m_motorJointsCoupled s" "m_doCalibration s"
      and "LogDataToCalibrateRobotMotorsJointsCouplingSin time axisNumber s = Some (ok, s')"
  shows "ok \<and> configured s' \<and> m_motorsData s' = m_motorsData (with_sample s) \<and>
         m_jointsData s' = m_jointsData (with_sample s) \<and> m_A s' = m_A s \<and>
         m_controlCoeff s' = m_controlCoeff s \<and>
         getNumberOfJoints (m_controlHelper s') = getNumberOfJoints (m_controlHelper s)"
proof -
  let ?ref = "(replicate (getActuatedDoFs (m_controlHelper s)) 0)[nat axisNumber := pi / 4 + pi / 4 * sin time]"
  from assms(4) have sizes:
      "getActuatedDoFs (m_controlHelper s) \<le> length (jointEncoders (m_controlHelper s))"
      "getNumberOfJoints (m_controlHelper s) \<le> length (analogSensors (m_controlHelper s))"
    and r: "map_option (\<lambda>(ok, s'). (True, move s')) (setFingersAxisReference ?ref (with_sample s)) = Some (ok, s')"
    unfolding LogSin_calibrating[OF assms(1-3)] by (auto split: if_splits)
  from r obtain ok0 s0 where s0: "setFingersAxisReference ?ref (with_sample s) = Some (ok0, s0)"
    and res: "ok = True" "s' = move s0" by auto
  from set_move_frame[OF s0] obtain d where
    d: "move s0 = (with_sample s)\<lparr>m_desiredMotorValue := d,
          m_controlHelper := (m_controlHelper (with_sample s))\<lparr>lastCommand := Some d\<rparr>\<rparr>"
       "length d = length (m_desiredMotorValue (with_sample s))" by blast
  have "configured (with_sample s)" using configured_with_sample[OF assms(1) sizes] .
  then have "configured (move s0)" unfolding d(1) using d(2) by (simp add: configured_def)
  then show ?thesis using res d(1) by (simp add: with_sample_def)
qed

lemma LogRandom_effect:
  assumes "configured s" "m_motorJointsCoupled s" "m_doCalibration s"
      and "LogDataToCalibrateRobotMotorsJointsCouplingRandom integrate rnd g s = Some (ok, s')"
  shows "ok \<and> configured s' \<and> m_motorsData s' = m_motorsData (with_sample s) \<and>
         m_jointsData s' = m_jointsData (with_sample s) \<and> m_A s' = m_A s \<and>
         m_controlCoeff s' = m_controlCoeff s \<and>
         getNumberOfJoints (m_controlHelper s') = getNumberOfJoints (m_controlHelper s)"
proof -
  obtain integ where i: "m_fingerIntegrator s = Some integ"
    using assms(1) by (auto simp: configured_def)
  have c: "cols (m_motorsData s) = getActuatedDoFs (m_controlHelper s)"
      "cols (m_jointsData s) = getNumberOfJoints (m_controlHelper s)"
    using assms(1) by (simp_all add: configured_def)
  from assms(4) obtain b v p where
      sizes: "getActuatedDoFs (m_controlHelper s) \<le> length (jointEncoders (m_controlHelper s))"
             "getNumberOfJoints (m_controlHelper s) \<le> length (analogSensors (m_controlHelper s))"
      and p: "setFingersAxisReference v b = Some p"
      and res: "ok" "s' = move (snd p)"
      and b: "m_controlHelper b = m_controlHelper s" "m_fingersScaling b = m_fingersScaling s"
             "m_desiredMotorValue b = m_desiredMotorValue s"
             "m_desiredJointValue b = m_desiredJointValue s"
             "m_fingerIntegrator b \<noteq> None"
             "m_motorsData b = m_motorsData (with_sample s)"
             "m_jointsData b = m_jointsData (with_sample s)"
             "m_A b = m_A s" "m_controlCoeff b = m_controlCoeff s"
    using assms(2,3) i c
    by (auto simp: LogDataToCalibrateRobotMotorsJointsCouplingRandom_def read_prefix_def
        push_back_row_fits getFingerAxisMeasuredValues_def getFingerJointsMeasuredValues_def
        with_sample_def Let_def case_prod_beta bind_eq_Some_conv split: if_splits)
  from p have s0: "setFingersAxisReference v b = Some (fst p, snd p)" by simp
  from set_move_frame[OF s0] obtain d where
    d: "move (snd p) = b\<lparr>m_desiredMotorValue := d,
          m_controlHelper := (m_controlHelper b)\<lparr>lastCommand := Some d\<rparr>\<rparr>"
       "length d = length (m_desiredMotorValue b)" by blast
  have w: "m_controlHelper (with_sample s) = m_controlHelper s"
      "m_fingersScaling (with_sample s) = m_fingersScaling s"
      "m_desiredMotorValue (with_sample s) = m_desiredMotorValue s"
      "m_desiredJointValue (with_sample s) = m_desiredJointValue s"
    by (simp_all add: with_sample_def)
  have "configured (with_sample s)" using configured_with_sample[OF assms(1) sizes] .
  then have "configured (move (snd p))"
    unfolding d(1) using d(2) b by (simp add: configured_def w)
  then show ?thesis using res d(1) b by simp
qed

lemma record_disabled:
  assumes "\<not> (m_motorJointsCoupled s \<and> m_doCalibration s)" "is_record step"
  shows "apply_step integrate step s = Some (True, s)"
  using assms
  by (cases step)
     (auto simp: LogDataToCalibrateRobotMotorsJointsCouplingRandom_def
        LogDataToCalibrateRobotMotorsJointsCouplingSin_def)

lemma record_effect:
  assumes "configured s" "m_motorJointsCoupled s" "m_doCalibration s" "is_record step"
      and "apply_step integrate step s = Some (ok, s')"
  shows "ok \<and> configured s' \<and> m_motorsData s' = m_motorsData (with_sample s) \<and>
         m_jointsData s' = m_jointsData (with_sample s) \<and> m_A s' = m_A s \<and>
         m_controlCoeff s' = m_controlCoeff s \<and>
         getNumberOfJoints (m_controlHelper s') = getNumberOfJoints (m_controlHelper s)"
  using assms by (cases step) (auto dest: LogRandom_effect LogSin_effect)

lemma step_invariant:
  assumes "configured s" "rows (m_motorsData s) = rows (m_jointsData s)"
      and "apply_step integrate step s = Some (ok, s')"
  shows "configured s' \<and> rows (m_motorsData s') = rows (m_jointsData s')"
proof (cases "is_record step")
  case False
  then obtain reading where "step = UpdateFeedback reading" by (cases step) auto
  with assms(3) have u: "updateFeedback reading s = (ok, s')" by simp
  from updateFeedback_frame[OF u] configured_updateFeedback[OF assms(1) u] assms(2)
  show ?thesis by auto
next
  case True
  show ?thesis
  proof (cases "m_motorJointsCoupled s \<and> m_doCalibration s")
    case False
    from record_disabled[OF False True, of integrate] assms show ?thesis by simp
  next
    case c: True
    from record_effect[OF assms(1) _ _ True assms(3)] c assms(2)
    show ?thesis by (simp add: with_sample_def rows_def)
  qed
qed

lemma session_invariant:
  "configured s \<Longrightarrow> rows (m_motorsData s) = rows (m_jointsData s) \<Longrightarrow>
   run_session integrate steps s = Some s' \<Longrightarrow>
   configured s' \<and> rows (m_motorsData s') = rows (m_jointsData s')"
proof (induction steps arbitrary: s)
  case Nil
  then show ?case by simp
next
  case (Cons step steps)
  from Cons.prems(3) obtain ok s1 where
    s1: "apply_step integrate step s = Some (ok, s1)" and r: "run_session integrate steps s1 = Some s'"
    by (auto split: option.splits)
  from step_invariant[OF Cons.prems(1,2) s1] Cons.IH[OF _ _ r] show ?case by blast
qed

lemma configure_establishes:
  assumes "configure cfg reading = Some s"
  shows "configured s \<and> rowlist (m_motorsData s) = [] \<and> rowlist (m_jointsData s) = []"
  using assms
  by (auto simp: configure_def configured_def getYarpVectorFromSearchable_def getFeedback_def
      rect_def Let_def split: option.splits if_splits prod.splits)

lemma configure_idle:
  "configure idle_config (Some ([1, 0], [1, 0, 1])) = Some idle_hand"
  by (simp add: configure_def idle_config_def example_config_def idle_hand_def example_hand_def
      example_helper_def getYarpVectorFromSearchable_def getFeedback_def eval_nat_numeral)

lemma configure_leaves_controlCoeff_unset:
  "configure cfg reading = Some s \<Longrightarrow> m_controlCoeff s = empty_matrix"
  by (auto simp: configure_def Let_def split: option.splits prod.splits if_splits)

lemmas session_eval =
  LogDataToCalibrateRobotMotorsJointsCouplingSin_def read_prefix_def push_back_row_def
  getFingerAxisMeasuredValues_def getFingerJointsMeasuredValues_def
  setFingersAxisReference_def move_def updateFeedback_def getFeedback_def
  example_hand_def example_helper_def eval_nat_numeral Let_def

text \<open>
  C10, as stated, fails on a hand that is configured without calibration: the sinusoidal
  record operation returns true there, so it is successful, and the two logs still have
  no row.
\<close>

theorem successful_record_appends_nothing:
  "configure idle_config (Some ([1, 0], [1, 0, 1])) = Some idle_hand \<and>
   LogDataToCalibrateRobotMotorsJointsCouplingSin 0 0 idle_hand = Some (True, idle_hand) \<and>
   rowlist (m_motorsData idle_hand) = [] \<and> rowlist (m_jointsData idle_hand) = []"
  by (simp add: configure_idle)
     (simp add: LogDataToCalibrateRobotMotorsJointsCouplingSin_def idle_hand_def example_hand_def)

text \<open>
  C10, amended. After \<^verbatim>\<open>configure\<close> both sample logs have no row. After any session of
  feedback updates and record operations that follows, the two logs have the same number
  of rows, and a record operation that completes there returns true; when
  \<^verbatim>\<open>m_motorJointsCoupled\<close> and \<^verbatim>\<open>m_doCalibration\<close> are both true it leaves each log with its old
  rows followed by exactly one new row, the cached axis measurements on the motor log and
  the cached joint measurements on the joint log, and when one of them is false it leaves
  the state as it was, so that no row is appended.
\<close>

theorem sample_logs_grow_together:
  assumes "configure cfg reading = Some s0"
  shows "rows (m_motorsData s0) = 0 \<and> rows (m_jointsData s0) = 0 \<and>
         (\<forall>steps s. run_session integrate steps s0 = Some s \<longrightarrow>
            rows (m_motorsData s) = rows (m_jointsData s) \<and>
            (\<forall>step ok s'. is_record step \<longrightarrow> apply_step integrate step s = Some (ok, s') \<longrightarrow>
               ok \<and>
               (if m_motorJointsCoupled s \<and> m_doCalibration s
                then rowlist (m_motorsData s') = rowlist (m_motorsData s) @
                       [take (getActuatedDoFs (m_controlHelper s)) (jointEncoders (m_controlHelper s))] \<and>
                     rowlist (m_jointsData s') = rowlist (m_jointsData s) @
                       [take (getNumberOfJoints (m_controlHelper s)) (analogSensors (m_controlHelper s))]
                else s' = s)))"
proof -
  from configure_establishes[OF assms] have c0: "configured s0"
    and e0: "rows (m_motorsData s0) = 0" "rows (m_jointsData s0) = 0"
    by (simp_all add: rows_def)
  have "rows (m_motorsData s) = rows (m_jointsData s) \<and>
        (\<forall>step ok s'. is_record step \<longrightarrow> apply_step integrate step s = Some (ok, s') \<longrightarrow>
           ok \<and>
           (if m_motorJointsCoupled s \<and> m_doCalibration s
            then rowlist (m_motorsData s') = rowlist (m_motorsData s) @
                   [take (getActuatedDoFs (m_controlHelper s)) (jointEncoders (m_controlHelper s))] \<and>
                 rowlist (m_jointsData s') = rowlist (m_jointsData s) @
                   [take (getNumberOfJoints (m_controlHelper s)) (analogSensors (m_controlHelper s))]
            else s' = s))"
    if run: "run_session integrate steps s0 = Some s" for steps s
  proof -
    from session_invariant[OF c0 _ run] e0 have c: "configured s"
      and eq: "rows (m_motorsData s) = rows (m_jointsData s)" by simp_all
    have "ok \<and>
           (if m_motorJointsCoupled s \<and> m_doCalibration s
            then rowlist (m_motorsData s') = rowlist (m_motorsData s) @
                   [take (getActuatedDoFs (m_controlHelper s)) (jointEncoders (m_controlHelper s))] \<and>
                 rowlist (m_jointsData s') = rowlist (m_jointsData s) @
                   [take (getNumberOfJoints (m_controlHelper s)) (analogSensors (m_controlHelper s))]
            else s' = s)"
      if rec: "is_record step" and st: "apply_step integrate step s = Some (ok, s')" for step ok s'
    proof (cases "m_motorJointsCoupled s \<and> m_doCalibration s")
      case False
      from record_disabled[OF False rec, of integrate] st False show ?thesis by simp
    next
      case True
      from record_effect[OF c _ _ rec st] True show ?thesis by (simp add: with_sample_def)
    qed
    with eq show ?thesis by blast
  qed
  with e0 show ?thesis by blast
qed


theorem sample_logs_grow_together_witness:
  "configure example_config (Some ([1, 0], [1, 0, 1])) = Some example_hand \<and>
   rows (m_motorsData example_hand) = 0 \<and> rows (m_jointsData example_hand) = 0 \<and>
   map_option m_motorsData
     (run_session (\<lambda>i v. (v, i))
        [RecordSin 0 0, UpdateFeedback (Some ([0, 1], [0, 1, 1])), RecordSin 0 1] example_hand)
     = Some \<lparr>cols = 2, rowlist = [[1, 0], [0, 1]]\<rparr> \<and>
   map_option m_jointsData
     (run_session (\<lambda>i v. (v, i))
        [RecordSin 0 0, UpdateFeedback (Some ([0, 1], [0, 1, 1])), RecordSin 0 1] example_hand)
     = Some \<lparr>cols = 3, rowlist = [[1, 0, 1], [0, 1, 1]]\<rparr>"
proof -
  have z: "rows (m_motorsData example_hand) = 0 \<and> rows (m_jointsData example_hand) = 0"
    using sample_logs_grow_together[OF configure_example] by blast
  have m: "map_option m_motorsData
     (run_session (\<lambda>i v. (v, i))
        [RecordSin 0 0, UpdateFeedback (Some ([0, 1], [0, 1, 1])), RecordSin 0 1] example_hand)
     = Some \<lparr>cols = 2, rowlist = [[1, 0], [0, 1]]\<rparr>"
    by (simp add: session_eval)
  have j: "map_option m_jointsData
     (run_session (\<lambda>i v. (v, i))
        [RecordSin 0 0, UpdateFeedback (Some ([0, 1], [0, 1, 1])), RecordSin 0 1] example_hand)
     = Some \<lparr>cols = 3, rowlist = [[1, 0, 1], [0, 1, 1]]\<rparr>"
    by (simp add: session_eval)
  show ?thesis using z m j configure_example by blast
qed

subsection \<open>The scheduler\<close>

lemma reference_loop_defined:
  "\<forall>i \<in> set is. i < length l \<and> i < length r \<Longrightarrow>
   \<exists>l' r'. reference_loop x is l r = Some (l', r') \<and> length l' = length l \<and> length r' = length r"
proof (induction "is" arbitrary: l r)
  case Nil
  then show ?case by simp
next
  case (Cons i "is")
  have "\<forall>j \<in> set is. j < length (l[i := x]) \<and> j < length (r[i := (l[i := x]) ! i])"
    using Cons.prems by simp
  from Cons.IH[OF this] Cons.prems show ?case by simp
qed

lemma getFeedbacks_frame:
  assumes "getFeedbacks reading m = (ok, m1)"
  shows "ok \<and>
         (\<exists>enc ana. m1 = m\<lparr>m_leftHandFingers :=
                            (m_leftHandFingers m)\<lparr>m_controlHelper :=
                               (m_controlHelper (m_leftHandFingers m))\<lparr>jointEncoders := enc, analogSensors := ana\<rparr>\<rparr>,
                          m_icubLeftFingerAxisFeedback := enc,
                          m_icubLeftFingerJointsFeedback := ana\<rparr>)"
proof -
  obtain b left where u: "updateFeedback reading (m_leftHandFingers m) = (b, left)"
    by (cases "updateFeedback reading (m_leftHandFingers m)") auto
  from updateFeedback_frame[OF u] obtain enc ana where
    left: "left = (m_leftHandFingers m)\<lparr>m_controlHelper :=
             (m_controlHelper (m_leftHandFingers m))\<lparr>jointEncoders := enc, analogSensors := ana\<rparr>\<rparr>"
    by blast
  from assms u have "ok" and "m1 = m\<lparr>m_leftHandFingers := left,
      m_icubLeftFingerAxisFeedback := getFingerAxisMeasuredValues left,
      m_icubLeftFingerJointsFeedback := getFingerJointsMeasuredValues left\<rparr>"
    by (auto simp: getFeedbacks_def)
  then show ?thesis
    unfolding left by (auto simp: getFingerAxisMeasuredValues_def getFingerJointsMeasuredValues_def)
qed

lemma module_ok_getFeedbacks:
  assumes "module_ok m" "getFeedbacks reading m = (ok, m1)"
  shows "module_ok m1 \<and> m_state m1 = m_state m \<and> m_timeStarting m1 = m_timeStarting m"
proof -
  from getFeedbacks_frame[OF assms(2)] obtain enc ana where
    "m1 = m\<lparr>m_leftHandFingers :=
              (m_leftHandFingers m)\<lparr>m_controlHelper :=
                 (m_controlHelper (m_leftHandFingers m))\<lparr>jointEncoders := enc, analogSensors := ana\<rparr>\<rparr>,
            m_icubLeftFingerAxisFeedback := enc,
            m_icubLeftFingerJointsFeedback := ana\<rparr>" by blast
  with assms(1) show ?thesis by (simp add: module_ok_def configured_def)
qed

text \<open>What a cycle does to the state of the scheduler and to the start time.\<close>

lemma updateModule_fsm:
  assumes "updateModule now reading m = Some (ok, m')"
  shows "ok \<and>
         m_state m' = (case m_state m of Configured \<Rightarrow> InPreparation | InPreparation \<Rightarrow> Running | Running \<Rightarrow> Running) \<and>
         m_timeStarting m' = (if m_state m = InPreparation then now else m_timeStarting m)"
proof -
  obtain b m1 where g: "getFeedbacks reading m = (b, m1)"
    by (cases "getFeedbacks reading m") auto
  from getFeedbacks_frame[OF g] have b: "b" and st: "m_state m1 = m_state m"
    and ts: "m_timeStarting m1 = m_timeStarting m" by auto
  show ?thesis
  proof (cases "m_state m")
    case Configured
    with assms g b st ts show ?thesis by (auto simp: updateModule_def)
  next
    case InPreparation
    with assms g b st ts show ?thesis by (auto simp: updateModule_def)
  next
    case Running
    with assms g b st ts show ?thesis
      by (auto simp: updateModule_def bind_eq_Some_conv split: prod.splits)
  qed
qed

lemma updateModule_defined:
  assumes "module_ok m"
  shows "\<exists>m'. updateModule now reading m = Some (True, m') \<and> module_ok m'"
proof -
  obtain b m1 where g: "getFeedbacks reading m = (b, m1)"
    by (cases "getFeedbacks reading m") auto
  from getFeedbacks_frame[OF g] have b: "b" by simp
  from module_ok_getFeedbacks[OF assms g] have ok1: "module_ok m1" by simp
  show ?thesis
  proof (cases "m_state m1 = Running")
    case False
    then show ?thesis
      using g b ok1 by (cases "m_state m1") (auto simp: updateModule_def module_ok_def)
  next
    case True
    let ?n = "getActuatedDoFs (m_controlHelper (m_leftHandFingers m1))"
    let ?x = "pi / 4 + pi / 4 * sin (now - m_timeStarting m1)"
    have "\<forall>i \<in> set [0..<?n]. i < length (m_icubLeftFingerAxisReference m1) \<and>
                               i < length (m_icubRightFingerAxisReference m1)"
      using ok1 by (auto simp: module_ok_def)
    from reference_loop_defined[OF this, of ?x] obtain l r where
      lr: "reference_loop ?x [0..<?n] (m_icubLeftFingerAxisReference m1)
             (m_icubRightFingerAxisReference m1) = Some (l, r)"
      and len: "length l = length (m_icubLeftFingerAxisReference m1)"
               "length r = length (m_icubRightFingerAxisReference m1)" by blast
    have "length (m_desiredMotorValue (m_leftHandFingers m1)) \<le> length (m_fingersScaling (m_leftHandFingers m1))"
      using ok1 by (simp add: module_ok_def configured_def)
    from setFingersAxisReference_defined[OF this, of l] obtain okl left where
      left: "setFingersAxisReference l (m_leftHandFingers m1) = Some (okl, left)" by blast
    have "length (m_desiredMotorValue (m_rightHandFingers m1)) \<le> length (m_fingersScaling (m_rightHandFingers m1))"
      using ok1 by (simp add: module_ok_def configured_def)
    from setFingersAxisReference_defined[OF this, of r] obtain okr right where
      right: "setFingersAxisReference r (m_rightHandFingers m1) = Some (okr, right)" by blast
    let ?m' = "m1\<lparr>m_timeNow := now, m_icubLeftFingerAxisReference := l,
                   m_icubRightFingerAxisReference := r,
                   m_leftHandFingers := move left, m_rightHandFingers := move right\<rparr>"
    have res: "updateModule now reading m = Some (True, ?m')"
      using g b True lr left right by (simp add: updateModule_def)
    from set_move_frame[OF left] obtain dl where
      dl: "move left = (m_leftHandFingers m1)\<lparr>m_desiredMotorValue := dl,
             m_controlHelper := (m_controlHelper (m_leftHandFingers m1))\<lparr>lastCommand := Some dl\<rparr>\<rparr>"
          "length dl = length (m_desiredMotorValue (m_leftHandFingers m1))" by blast
    from set_move_frame[OF right] obtain dr where
      dr: "move right = (m_rightHandFingers m1)\<lparr>m_desiredMotorValue := dr,
             m_controlHelper := (m_controlHelper (m_rightHandFingers m1))\<lparr>lastCommand := Some dr\<rparr>\<rparr>"
          "length dr = length (m_desiredMotorValue (m_rightHandFingers m1))" by blast
    have "module_ok ?m'"
      using ok1 len dl(2) dr(2) unfolding dl(1) dr(1) by (simp add: module_ok_def configured_def)
    with res show ?thesis by blast
  qed
qed

lemma run_cycles_defined:
  "module_ok m \<Longrightarrow> \<exists>m'. run_cycles ins m = Some m'"
proof (induction ins arbitrary: m)
  case Nil
  then show ?case by simp
next
  case (Cons a ins)
  obtain now reading where a: "a = (now, reading)" by (cases a) auto
  from updateModule_defined[OF Cons.prems, of now reading] obtain m1 where
    m1: "updateModule now reading m = Some (True, m1)" "module_ok m1" by blast
  from Cons.IH[OF m1(2)] a m1(1) show ?case by simp
qed

lemma run_cycles_Running:
  "m_state m = Running \<Longrightarrow> run_cycles ins m = Some m' \<Longrightarrow>
     m_state m' = Running \<and> m_timeStarting m' = m_timeStarting m"
proof (induction ins arbitrary: m)
  case Nil
  then show ?case by simp
next
  case (Cons a ins)
  obtain now reading where a: "a = (now, reading)" by (cases a) auto
  from Cons.prems(2) a obtain ok m1 where
    m1: "updateModule now reading m = Some (ok, m1)"
    and r: "(if ok then run_cycles ins m1 else Some m1) = Some m'"
    by (auto split: option.splits)
  from updateModule_fsm[OF m1] Cons.prems(1) have s1: "ok" "m_state m1 = Running"
    "m_timeStarting m1 = m_timeStarting m" by simp_all
  from Cons.IH[OF s1(2)] r s1 show ?case by simp
qed

lemma example_module_ok: "module_ok example_module"
  using example_hand_configured
  by (simp add: module_ok_def example_module_def) (simp add: example_hand_def example_helper_def)

lemma running_module_ok: "module_ok running_module"
  using example_module_ok by (simp add: module_ok_def running_module_def)

lemmas module_eval =
  updateModule_def getFeedbacks_def updateFeedback_def getFeedback_def
  getFingerAxisMeasuredValues_def getFingerJointsMeasuredValues_def
  setFingersAxisReference_def move_def
  example_module_def example_hand_def example_helper_def eval_nat_numeral Let_def

text \<open>
  C6. From the state \<open>Configured\<close>, whatever the clock and the sensors deliver: a run of
  cycles that completes ends in \<open>InPreparation\<close> after one cycle and in \<open>Running\<close> after two
  or more, never again in \<open>Configured\<close> or \<open>InPreparation\<close>, and from the second cycle on the
  start time is the clock value of the second cycle. In a module with the sizes that
  configuration establishes, the right hand having at least as many axes as the left,
  every run of cycles completes.
\<close>

theorem scheduler_path:
  assumes "m_state m = Configured"
  shows "(\<forall>ins m'. run_cycles ins m = Some m' \<longrightarrow>
            m_state m' = fsm_after (length ins) \<and>
            (2 \<le> length ins \<longrightarrow> m_timeStarting m' = fst (ins ! 1))) \<and>
         (module_ok m \<longrightarrow> (\<forall>ins. \<exists>m'. run_cycles ins m = Some m'))"
proof -
  have path: "m_state m' = fsm_after (length ins) \<and>
              (2 \<le> length ins \<longrightarrow> m_timeStarting m' = fst (ins ! 1))"
    if run: "run_cycles ins m = Some m'" for ins m'
  proof (cases ins)
    case Nil
    with run assms show ?thesis by simp
  next
    case (Cons a rest)
    obtain now1 reading1 where a: "a = (now1, reading1)" by (cases a) auto
    from run Cons a obtain ok1 m1 where
      m1: "updateModule now1 reading1 m = Some (ok1, m1)"
      and r1: "(if ok1 then run_cycles rest m1 else Some m1) = Some m'"
      by (auto split: option.splits)
    from updateModule_fsm[OF m1] assms have s1: "ok1" "m_state m1 = InPreparation" by simp_all
    show ?thesis
    proof (cases rest)
      case Nil
      with r1 s1 Cons show ?thesis by simp
    next
      case (Cons b rest')
      obtain now2 reading2 where b: "b = (now2, reading2)" by (cases b) auto
      from r1 s1(1) Cons b obtain ok2 m2 where
        m2: "updateModule now2 reading2 m1 = Some (ok2, m2)"
        and r2: "(if ok2 then run_cycles rest' m2 else Some m2) = Some m'"
        by (auto split: option.splits)
      from updateModule_fsm[OF m2] s1(2) have s2: "ok2" "m_state m2 = Running"
        "m_timeStarting m2 = now2" by simp_all
      from r2 s2(1) have "run_cycles rest' m2 = Some m'" by simp
      from run_cycles_Running[OF s2(2) this] s2(3)
      have "m_state m' = Running" "m_timeStarting m' = now2" by simp_all
      then show ?thesis using \<open>ins = a # rest\<close> Cons b by simp
    qed
  qed
  from path run_cycles_defined show ?thesis by blast
qed


theorem scheduler_path_witness:
  "m_state example_module = Configured \<and> module_ok example_module \<and>
   map_option m_state (run_cycles [(10, None)] example_module) = Some InPreparation \<and>
   map_option m_state (run_cycles [(10, None), (11, Some ([1, 0], [1, 0, 1]))] example_module) = Some Running \<and>
   map_option m_timeStarting (run_cycles [(10, None), (11, Some ([1, 0], [1, 0, 1]))] example_module) = Some 11 \<and>
   map_option m_state (run_cycles [(10, None), (11, Some ([1, 0], [1, 0, 1])), (12, None)] example_module) = Some Running \<and>
   map_option m_timeStarting (run_cycles [(10, None), (11, Some ([1, 0], [1, 0, 1])), (12, None)] example_module) = Some 11"
proof -
  have c: "m_state example_module = Configured" by (simp add: example_module_def)
  note t = scheduler_path[OF c]
  have d: "\<exists>m'. run_cycles ins example_module = Some m'" for ins
    using t example_module_ok by blast
  have p: "map_option m_state (run_cycles ins example_module) = Some (fsm_after (length ins))" for ins
    using t d[of ins] by auto
  have q: "2 \<le> length ins \<Longrightarrow> map_option m_timeStarting (run_cycles ins example_module) = Some (fst (ins ! 1))" for ins
    using t d[of ins] by auto
  show ?thesis
    using c example_module_ok p[of "[(10, None)]"]
      p[of "[(10, None), (11, Some ([1, 0], [1, 0, 1]))]"]
      q[of "[(10, None), (11, Some ([1, 0], [1, 0, 1]))]"]
      p[of "[(10, None), (11, Some ([1, 0], [1, 0, 1])), (12, None)]"]
      q[of "[(10, None), (11, Some ([1, 0], [1, 0, 1])), (12, None)]"]
    by (simp add: eval_nat_numeral)
qed

text \<open>
  C9. A failed read makes \<^verbatim>\<open>updateFeedback\<close> return false and leaves the hand, its cached
  measurements included, as it was, so the two getters return what they returned before.
  A cycle whose read fails is the very cycle that a successful read of the cached values
  again would give; in a well-sized module it returns true, its feedback buffers hold the
  cached values, and the scheduler takes its step.
\<close>

theorem failed_read_keeps_cache:
  "updateFeedback None s = (False, s) \<and>
   getFingerAxisMeasuredValues (snd (updateFeedback None s)) = getFingerAxisMeasuredValues s \<and>
   getFingerJointsMeasuredValues (snd (updateFeedback None s)) = getFingerJointsMeasuredValues s \<and>
   updateModule now None m =
     updateModule now (Some (jointEncoders (m_controlHelper (m_leftHandFingers m)),
                             analogSensors (m_controlHelper (m_leftHandFingers m)))) m \<and>
   (module_ok m \<longrightarrow>
      (\<exists>m'. updateModule now None m = Some (True, m') \<and>
            m_icubLeftFingerAxisFeedback m' = jointEncoders (m_controlHelper (m_leftHandFingers m)) \<and>
            m_icubLeftFingerJointsFeedback m' = analogSensors (m_controlHelper (m_leftHandFingers m)) \<and>
            getFingerAxisMeasuredValues (m_leftHandFingers m') = getFingerAxisMeasuredValues (m_leftHandFingers m) \<and>
            getFingerJointsMeasuredValues (m_leftHandFingers m') = getFingerJointsMeasuredValues (m_leftHandFingers m) \<and>
            m_state m' = (case m_state m of Configured \<Rightarrow> InPreparation
                          | InPreparation \<Rightarrow> Running | Running \<Rightarrow> Running)))"
proof -
  have u: "updateFeedback None s = (False, s)" for s
    by (simp add: updateFeedback_def getFeedback_def)
  have g: "getFeedbacks None m =
             (True, m\<lparr>m_icubLeftFingerAxisFeedback := jointEncoders (m_controlHelper (m_leftHandFingers m)),
                      m_icubLeftFingerJointsFeedback := analogSensors (m_controlHelper (m_leftHandFingers m))\<rparr>)"
    by (simp add: getFeedbacks_def u getFingerAxisMeasuredValues_def getFingerJointsMeasuredValues_def)
  have g': "getFeedbacks (Some (jointEncoders (m_controlHelper (m_leftHandFingers m)),
                             analogSensors (m_controlHelper (m_leftHandFingers m)))) m = getFeedbacks None m"
    by (simp add: getFeedbacks_def updateFeedback_def getFeedback_def)
  have same: "updateModule now None m =
     updateModule now (Some (jointEncoders (m_controlHelper (m_leftHandFingers m)),
                             analogSensors (m_controlHelper (m_leftHandFingers m)))) m"
    by (simp add: updateModule_def g')
  have cont: "\<exists>m'. updateModule now None m = Some (True, m') \<and>
            m_icubLeftFingerAxisFeedback m' = jointEncoders (m_controlHelper (m_leftHandFingers m)) \<and>
            m_icubLeftFingerJointsFeedback m' = analogSensors (m_controlHelper (m_leftHandFingers m)) \<and>
            getFingerAxisMeasuredValues (m_leftHandFingers m') = getFingerAxisMeasuredValues (m_leftHandFingers m) \<and>
            getFingerJointsMeasuredValues (m_leftHandFingers m') = getFingerJointsMeasuredValues (m_leftHandFingers m) \<and>
            m_state m' = (case m_state m of Configured \<Rightarrow> InPreparation
                          | InPreparation \<Rightarrow> Running | Running \<Rightarrow> Running)"
    if ok: "module_ok m"
  proof -
    from updateModule_defined[OF ok, of now None] obtain m' where
      m': "updateModule now None m = Some (True, m')" by blast
    from updateModule_fsm[OF m'] have st: "m_state m' = (case m_state m of Configured \<Rightarrow> InPreparation
                          | InPreparation \<Rightarrow> Running | Running \<Rightarrow> Running)" by simp
    have fb: "m_icubLeftFingerAxisFeedback m' = jointEncoders (m_controlHelper (m_leftHandFingers m)) \<and>
            m_icubLeftFingerJointsFeedback m' = analogSensors (m_controlHelper (m_leftHandFingers m)) \<and>
            jointEncoders (m_controlHelper (m_leftHandFingers m')) = jointEncoders (m_controlHelper (m_leftHandFingers m)) \<and>
            analogSensors (m_controlHelper (m_leftHandFingers m')) = analogSensors (m_controlHelper (m_leftHandFingers m))"
    proof (cases "m_state m = Running")
      case False
      with m' show ?thesis by (cases "m_state m") (auto simp: updateModule_def g)
    next
      case True
      with m' obtain l okl left where
        left: "setFingersAxisReference l (m_leftHandFingers m) = Some (okl, left)"
        and res: "m_icubLeftFingerAxisFeedback m' = jointEncoders (m_controlHelper (m_leftHandFingers m))"
           "m_icubLeftFingerJointsFeedback m' = analogSensors (m_controlHelper (m_leftHandFingers m))"
           "m_leftHandFingers m' = move left"
        by (auto simp: updateModule_def g bind_eq_Some_conv split: prod.splits)
      from set_move_frame[OF left] obtain d where
        "move left = (m_leftHandFingers m)\<lparr>m_desiredMotorValue := d,
             m_controlHelper := (m_controlHelper (m_leftHandFingers m))\<lparr>lastCommand := Some d\<rparr>\<rparr>" by blast
      with res show ?thesis by simp
    qed
    from m' st fb show ?thesis
      by (auto simp: getFingerAxisMeasuredValues_def getFingerJointsMeasuredValues_def)
  qed
  from u[of s] same cont show ?thesis by simp
qed

theorem failed_read_keeps_cache_witness:
  "module_ok running_module \<and>
   updateFeedback None example_hand = (False, example_hand) \<and>
   map_option fst (updateModule 12 None running_module) = Some True \<and>
   map_option (\<lambda>r. m_icubLeftFingerAxisFeedback (snd r)) (updateModule 12 None running_module) = Some [1, 0] \<and>
   map_option (\<lambda>r. m_icubLeftFingerJointsFeedback (snd r)) (updateModule 12 None running_module) = Some [1, 0, 1] \<and>
   map_option (\<lambda>r. m_state (snd r)) (updateModule 12 None running_module) = Some Running"
proof -
  have c: "jointEncoders (m_controlHelper (m_leftHandFingers running_module)) = [1, 0]"
      "analogSensors (m_controlHelper (m_leftHandFingers running_module)) = [1, 0, 1]"
      "m_state running_module = Running"
    by (simp_all add: running_module_def example_module_def example_hand_def example_helper_def)
  have u: "updateFeedback None example_hand = (False, example_hand)"
    using failed_read_keeps_cache[of example_hand 12 running_module] by blast
  from failed_read_keeps_cache[of example_hand 12 running_module] running_module_ok obtain m' where
    "updateModule 12 None running_module = Some (True, m')"
    "m_icubLeftFingerAxisFeedback m' = jointEncoders (m_controlHelper (m_leftHandFingers running_module))"
    "m_icubLeftFingerJointsFeedback m' = analogSensors (m_controlHelper (m_leftHandFingers running_module))"
    "m_state m' = (case m_state running_module of Configured \<Rightarrow> InPreparation
                          | InPreparation \<Rightarrow> Running | Running \<Rightarrow> Running)"
    by blast
  then show ?thesis using c u running_module_ok by simp
qed

text \<open>
  C7. Whatever the cycle, also in the running state, \<^verbatim>\<open>updateModule\<close> leaves the feedback
  buffers of the right hand and the cached measurements of the right hand's helper as
  they were: \<^verbatim>\<open>getFeedbacks\<close> updates and copies the left hand only.
\<close>

theorem right_hand_feedback_not_pulled:
  assumes "updateModule now reading m = Some (ok, m')"
  shows "m_icubRightFingerAxisFeedback m' = m_icubRightFingerAxisFeedback m \<and>
         m_icubRightFingerJointsFeedback m' = m_icubRightFingerJointsFeedback m \<and>
         getFingerAxisMeasuredValues (m_rightHandFingers m') = getFingerAxisMeasuredValues (m_rightHandFingers m) \<and>
         getFingerJointsMeasuredValues (m_rightHandFingers m') = getFingerJointsMeasuredValues (m_rightHandFingers m)"
proof -
  obtain b m1 where g: "getFeedbacks reading m = (b, m1)"
    by (cases "getFeedbacks reading m") auto
  from getFeedbacks_frame[OF g] have b: "b"
    and r1: "m_icubRightFingerAxisFeedback m1 = m_icubRightFingerAxisFeedback m"
       "m_icubRightFingerJointsFeedback m1 = m_icubRightFingerJointsFeedback m"
       "m_rightHandFingers m1 = m_rightHandFingers m" by auto
  show ?thesis
  proof (cases "m_state m1 = Running")
    case False
    with assms g b r1 show ?thesis
      by (cases "m_state m1") (auto simp: updateModule_def)
  next
    case True
    with assms g b obtain r okr right where
      right: "setFingersAxisReference r (m_rightHandFingers m1) = Some (okr, right)"
      and res: "m_icubRightFingerAxisFeedback m' = m_icubRightFingerAxisFeedback m1"
         "m_icubRightFingerJointsFeedback m' = m_icubRightFingerJointsFeedback m1"
         "m_rightHandFingers m' = move right"
      by (auto simp: updateModule_def bind_eq_Some_conv split: prod.splits)
    from set_move_frame[OF right] obtain d where
      "move right = (m_rightHandFingers m1)\<lparr>m_desiredMotorValue := d,
           m_controlHelper := (m_controlHelper (m_rightHandFingers m1))\<lparr>lastCommand := Some d\<rparr>\<rparr>" by blast
    with res r1 show ?thesis
      by (simp add: getFingerAxisMeasuredValues_def getFingerJointsMeasuredValues_def)
  qed
qed


theorem right_hand_feedback_not_pulled_witness:
  "map_option fst (updateModule 12 (Some ([0, 1], [0, 1, 1])) running_module) = Some True \<and>
   map_option (\<lambda>r. m_icubLeftFingerAxisFeedback (snd r))
     (updateModule 12 (Some ([0, 1], [0, 1, 1])) running_module) = Some [0, 1] \<and>
   map_option (\<lambda>r. m_icubRightFingerAxisFeedback (snd r))
     (updateModule 12 (Some ([0, 1], [0, 1, 1])) running_module) = Some [0, 0] \<and>
   map_option (\<lambda>r. getFingerAxisMeasuredValues (m_rightHandFingers (snd r)))
     (updateModule 12 (Some ([0, 1], [0, 1, 1])) running_module) = Some [1, 0]"
proof -
  from updateModule_defined[OF running_module_ok, of 12 "Some ([0, 1], [0, 1, 1])"] obtain m' where
    m': "updateModule 12 (Some ([0, 1], [0, 1, 1])) running_module = Some (True, m')" by blast
  have l: "map_option (\<lambda>r. m_icubLeftFingerAxisFeedback (snd r))
     (updateModule 12 (Some ([0, 1], [0, 1, 1])) running_module) = Some [0, 1]"
    by (simp add: running_module_def module_eval)
  have c: "m_icubRightFingerAxisFeedback running_module = [0, 0]"
      "getFingerAxisMeasuredValues (m_rightHandFingers running_module) = [1, 0]"
    by (simp_all add: running_module_def example_module_def example_hand_def example_helper_def
        getFingerAxisMeasuredValues_def)
  from right_hand_feedback_not_pulled[OF m'] m' l c show ?thesis by simp
qed

subsection \<open>Training the coupling matrix\<close>

lemma step_keeps_A:
  assumes "configured s" "apply_step integrate step s = Some (ok, s')"
  shows "m_A s' = m_A s \<and> m_controlCoeff s' = m_controlCoeff s \<and>
         getNumberOfJoints (m_controlHelper s') = getNumberOfJoints (m_controlHelper s)"
proof (cases "is_record step")
  case False
  then obtain reading where "step = UpdateFeedback reading" by (cases step) auto
  with assms(2) have u: "updateFeedback reading s = (ok, s')" by simp
  from updateFeedback_frame[OF u] show ?thesis by auto
next
  case True
  show ?thesis
  proof (cases "m_motorJointsCoupled s \<and> m_doCalibration s")
    case False
    from record_disabled[OF False True, of integrate] assms(2) show ?thesis by simp
  next
    case c: True
    from record_effect[OF assms(1) _ _ True assms(2)] c show ?thesis by simp
  qed
qed

lemma session_keeps_A:
  "configured s \<Longrightarrow> rows (m_motorsData s) = rows (m_jointsData s) \<Longrightarrow>
   run_session integrate steps s = Some s' \<Longrightarrow>
   m_A s' = m_A s \<and> m_controlCoeff s' = m_controlCoeff s \<and>
   getNumberOfJoints (m_controlHelper s') = getNumberOfJoints (m_controlHelper s)"
proof (induction steps arbitrary: s)
  case Nil
  then show ?case by simp
next
  case (Cons step steps)
  from Cons.prems(3) obtain ok s1 where
    s1: "apply_step integrate step s = Some (ok, s1)" and r: "run_session integrate steps s1 = Some s'"
    by (auto split: option.splits)
  from step_invariant[OF Cons.prems(1,2) s1] have i: "configured s1"
    "rows (m_motorsData s1) = rows (m_jointsData s1)" by simp_all
  from Cons.IH[OF i r] step_keeps_A[OF Cons.prems(1) s1] show ?case by simp
qed

text \<open>
  What a calibration session hands to \<^verbatim>\<open>trainCouplingMatrix\<close>: after \<^verbatim>\<open>configure\<close> in
  calibration mode and any session, the coupling matrix is still unset, the two logs have
  the same number of rows, and the joint log is one joint vector wide.
\<close>

lemma session_ready_for_training:
  assumes "configure cfg reading = Some s0"
      and "cfg_motorsJointsCoupled cfg" "cfg_doCalibration cfg"
      and "run_session integrate steps s0 = Some s"
  shows "m_A s = empty_matrix \<and> rows (m_jointsData s) = rows (m_motorsData s) \<and>
         cols (m_jointsData s) = getNumberOfJoints (m_controlHelper s)"
proof -
  from configure_establishes[OF assms(1)] have c0: "configured s0"
    and e0: "rows (m_motorsData s0) = rows (m_jointsData s0)" by (simp_all add: rows_def)
  have a0: "m_A s0 = empty_matrix"
    using assms(1,2,3)
    by (auto simp: configure_def Let_def split: option.splits prod.splits)
  from session_invariant[OF c0 e0 assms(4)] session_keeps_A[OF c0 e0 assms(4)] a0
  show ?thesis by (simp add: configured_def)
qed

text \<open>
  C5. \<^verbatim>\<open>configure\<close> sets \<^verbatim>\<open>m_A\<close> in two of its three modes and \<^verbatim>\<open>m_controlCoeff\<close> in none; the
  only assignment to \<^verbatim>\<open>m_controlCoeff\<close> is the last statement of \<^verbatim>\<open>trainCouplingMatrix\<close>.
  After \<^verbatim>\<open>configure\<close> and any session, on a hand with at least one joint, the control
  coefficient is still the \<open>0 \<times> 0\<close> matrix, its product with a vector that has one entry
  per joint is undefined, and so is \<^verbatim>\<open>setFingersJointReference\<close> on that vector.
\<close>

theorem setFingersJointReference_undefined_untrained:
  assumes "configure cfg reading = Some s0"
      and "run_session integrate steps s0 = Some s"
      and "0 < getNumberOfJoints (m_controlHelper s)"
      and "length v = getNumberOfJoints (m_controlHelper s)"
  shows "m_controlCoeff s = empty_matrix \<and> mat_vec (m_controlCoeff s) v = None \<and>
         setFingersJointReference v s = None"
proof -
  from configure_establishes[OF assms(1)] have c0: "configured s0"
    and e0: "rows (m_motorsData s0) = rows (m_jointsData s0)" by (simp_all add: rows_def)
  from session_invariant[OF c0 e0 assms(2)] have c: "configured s" by simp
  from session_keeps_A[OF c0 e0 assms(2)] configure_leaves_controlCoeff_unset[OF assms(1)]
  have u: "m_controlCoeff s = empty_matrix" by simp
  have l: "length v = length (m_desiredJointValue s)"
    using c assms(4) by (simp add: configured_def)
  have rp: "read_prefix (getNumberOfJoints (m_controlHelper s)) v = Some v"
    using assms(4) by (simp add: read_prefix_def)
  have mv: "mat_vec (m_controlCoeff s) v = None"
    using u assms(3,4) by (simp add: mat_vec_def empty_matrix_def)
  have "setFingersJointReference v s = None"
    using l rp mv by (simp add: setFingersJointReference_def)
  with u mv show ?thesis by simp
qed

theorem setFingersJointReference_undefined_untrained_witness:
  "configure idle_config (Some ([1, 0], [1, 0, 1])) = Some idle_hand \<and>
   run_session (\<lambda>i v. (v, i)) [UpdateFeedback (Some ([0, 1], [0, 1, 1]))] idle_hand
     = Some (idle_hand\<lparr>m_controlHelper :=
                (m_controlHelper idle_hand)\<lparr>jointEncoders := [0, 1], analogSensors := [0, 1, 1]\<rparr>\<rparr>) \<and>
   length [1, 0, 1 :: real] = getNumberOfJoints (m_controlHelper idle_hand) \<and>
   m_controlCoeff idle_hand = empty_matrix \<and>
   setFingersJointReference [1, 0, 1]
     (idle_hand\<lparr>m_controlHelper :=
         (m_controlHelper idle_hand)\<lparr>jointEncoders := [0, 1], analogSensors := [0, 1, 1]\<rparr>\<rparr>) = None"
proof -
  let ?s = "idle_hand\<lparr>m_controlHelper :=
              (m_controlHelper idle_hand)\<lparr>jointEncoders := [0, 1], analogSensors := [0, 1, 1]\<rparr>\<rparr>"
  have r: "run_session (\<lambda>i v. (v, i)) [UpdateFeedback (Some ([0, 1], [0, 1, 1]))] idle_hand = Some ?s"
    by (simp add: updateFeedback_def getFeedback_def)
  have n: "0 < getNumberOfJoints (m_controlHelper ?s)"
      "length [1, 0, 1 :: real] = getNumberOfJoints (m_controlHelper ?s)"
      "length [1, 0, 1 :: real] = getNumberOfJoints (m_controlHelper idle_hand)"
      "m_controlCoeff ?s = m_controlCoeff idle_hand"
    by (simp_all add: idle_hand_def example_hand_def example_helper_def)
  from setFingersJointReference_undefined_untrained[OF configure_idle r n(1,2)]
  have "m_controlCoeff ?s = empty_matrix" "setFingersJointReference [1, 0, 1] ?s = None"
    by simp_all
  with r n configure_idle show ?thesis by simp
qed

lemma train_loop_closed:
  assumes "\<forall>i \<in> set is. i < cols J" "cols coeff = rows J"
      and "cols A = rows coeff \<or> (cols A = 0 \<and> rowlist A = [])"
  shows "train_loop coeff J is A =
           Some \<lparr>cols = (if is = [] then cols A else rows coeff),
                 rowlist = rowlist A @ map (\<lambda>i. map (\<lambda>r. dot r (column i J)) (rowlist coeff)) is\<rparr>"
  using assms
proof (induction "is" arbitrary: A)
  case Nil
  then show ?case by simp
next
  case (Cons i "is")
  let ?v = "map (\<lambda>r. dot r (column i J)) (rowlist coeff)"
  let ?A' = "\<lparr>cols = rows coeff, rowlist = rowlist A @ [?v]\<rparr>"
  have c: "col i J = Some (column i J)" using Cons.prems(1) by (simp add: col_def)
  have mv: "mat_vec coeff (column i J) = Some ?v"
    using Cons.prems(2) by (simp add: mat_vec_def column_def rows_def)
  have pb: "snd (push_back_row A ?v) = ?A'"
    using Cons.prems(3) by (auto simp: push_back_row_def rows_def)
  have step: "train_loop coeff J (i # is) A = train_loop coeff J is ?A'"
    using c mv pb by simp
  have ih: "train_loop coeff J is ?A' =
              Some \<lparr>cols = (if is = [] then cols ?A' else rows coeff),
                    rowlist = rowlist ?A' @ map (\<lambda>i. map (\<lambda>r. dot r (column i J)) (rowlist coeff)) is\<rparr>"
    using Cons.prems(1,2) by (intro Cons.IH) simp_all
  show ?case unfolding step ih by simp
qed

lemma pinv_spec_defined:
  assumes "shape_preserving inverseM"
  shows "\<exists>p. pinv_spec inverseM x = Some p \<and> cols p = rows x \<and> rows p = cols x"
proof -
  let ?g = "\<lparr>cols = cols x,
             rowlist = map (\<lambda>r. map (\<lambda>j. dot r (column j x)) [0..<cols x]) (rowlist (transposeM x))\<rparr>"
  have g: "mult (transposeM x) x = Some ?g"
    by (simp add: mult_def transposeM_def)
  have sg: "cols (inverseM ?g) = cols x" "rows (inverseM ?g) = cols x"
    using assms by (simp_all add: shape_preserving_def rows_def transposeM_def)
  let ?p = "\<lparr>cols = cols (transposeM x),
             rowlist = map (\<lambda>r. map (\<lambda>j. dot r (column j (transposeM x))) [0..<cols (transposeM x)])
                         (rowlist (inverseM ?g))\<rparr>"
  have p: "mult (inverseM ?g) (transposeM x) = Some ?p"
    using sg(1) by (simp add: mult_def) (simp add: transposeM_def rows_def)
  have "pinv_spec inverseM x = Some ?p" by (simp add: pinv_spec_def g p)
  moreover have "cols ?p = rows x" by (simp add: transposeM_def)
  moreover have "rows ?p = cols x" using sg(2) by (simp add: rows_def)
  ultimately show ?thesis by blast
qed

lemma trainCouplingMatrix_statements_pinv:
  "trainCouplingMatrix_statements inverseM s =
     (case pinv_spec inverseM (m_motorsData s) of
        None \<Rightarrow> None
      | Some coeff \<Rightarrow>
          (case train_loop coeff (m_jointsData s) [0..<getNumberOfJoints (m_controlHelper s)] (m_A s) of
             None \<Rightarrow> None
           | Some A \<Rightarrow>
               (case pinv_spec inverseM A of
                  None \<Rightarrow> None
                | Some controlCoeff \<Rightarrow> Some (s\<lparr>m_A := A, m_controlCoeff := controlCoeff\<rparr>))))"
  by (simp add: trainCouplingMatrix_statements_def pinv_spec_def split: option.splits)

lemma trainCouplingMatrix_statements_closed:
  assumes "shape_preserving inverseM"
      and "m_A s = empty_matrix"
      and "rows (m_jointsData s) = rows (m_motorsData s)"
      and "cols (m_jointsData s) = getNumberOfJoints (m_controlHelper s)"
      and "0 < getNumberOfJoints (m_controlHelper s)"
  shows "\<exists>coeff A C.
           pinv_spec inverseM (m_motorsData s) = Some coeff \<and>
           cols coeff = rows (m_motorsData s) \<and> rows coeff = cols (m_motorsData s) \<and>
           cols C = rows A \<and> rows C = cols A \<and>
           A = \<lparr>cols = cols (m_motorsData s),
                rowlist = map (\<lambda>j. map (\<lambda>r. dot r (column j (m_jointsData s))) (rowlist coeff))
                            [0..<getNumberOfJoints (m_controlHelper s)]\<rparr> \<and>
           pinv_spec inverseM A = Some C \<and>
           trainCouplingMatrix_statements inverseM s = Some (s\<lparr>m_A := A, m_controlCoeff := C\<rparr>)"
proof -
  let ?n = "getNumberOfJoints (m_controlHelper s)"
  from pinv_spec_defined[OF assms(1), of "m_motorsData s"] obtain coeff where
    coeff: "pinv_spec inverseM (m_motorsData s) = Some coeff"
    and sh: "cols coeff = rows (m_motorsData s)" "rows coeff = cols (m_motorsData s)" by blast
  let ?A = "\<lparr>cols = cols (m_motorsData s),
             rowlist = map (\<lambda>j. map (\<lambda>r. dot r (column j (m_jointsData s))) (rowlist coeff)) [0..<?n]\<rparr>"
  have "train_loop coeff (m_jointsData s) [0..<?n] (m_A s) =
          Some \<lparr>cols = (if [0..<?n] = [] then cols (m_A s) else rows coeff),
                rowlist = rowlist (m_A s) @
                  map (\<lambda>i. map (\<lambda>r. dot r (column i (m_jointsData s))) (rowlist coeff)) [0..<?n]\<rparr>"
    using assms(2,3,4) sh(1) by (intro train_loop_closed) (simp_all add: empty_matrix_def)
  then have loop: "train_loop coeff (m_jointsData s) [0..<?n] (m_A s) = Some ?A"
    using assms(2,5) sh(2) by (simp add: empty_matrix_def)
  from pinv_spec_defined[OF assms(1), of ?A] obtain C where
    C: "pinv_spec inverseM ?A = Some C" and shC: "cols C = rows ?A" "rows C = cols ?A" by blast
  have "trainCouplingMatrix_statements inverseM s = Some (s\<lparr>m_A := ?A, m_controlCoeff := C\<rparr>)"
    by (simp add: trainCouplingMatrix_statements_pinv coeff loop C)
  with coeff C sh shC show ?thesis by blast
qed

lemma inverse_small_shape: "shape_preserving inverse_small"
  by (auto simp: shape_preserving_def inverse_small_def rows_def split: list.splits)


lemma pinv_spec_Some:
  "pinv_spec inverseM x = Some p \<Longrightarrow>
     \<exists>g. mult (transposeM x) x = Some g \<and> mult (inverseM g) (transposeM x) = Some p"
  by (auto simp: pinv_spec_def split: option.splits)

lemmas train_eval =
  trainCouplingMatrix_statements_def mult_def transposeM_def column_def col_def mat_vec_def dot_def rows_def
  push_back_row_def inverse_small_def
  excited_hand_def unexcited_hand_def undersampled_hand_def trained_hand_def example_hand_def
  example_helper_def empty_matrix_def eval_nat_numeral Let_def

lemma trainCouplingMatrix_undefined: "trainCouplingMatrix inverseM s = None"
  by (simp add: trainCouplingMatrix_def split: option.splits)

text \<open>
  C2. On the logs that a calibration session leaves (the coupling matrix still unset, as
  many joint rows as motor rows, one column per joint, at least one joint), whatever the
  rank of the motor log, the statements of \<^verbatim>\<open>trainCouplingMatrix\<close> form
  \<open>xT_x = motorsData\<^sup>t \<cdot> motorsData\<close> and \<open>coeff = inverse(xT_x) \<cdot> motorsData\<^sup>t\<close>, take for
  each joint \<open>j\<close> the vector \<open>coeff \<cdot> jointsData[:,j]\<close> as row \<open>j\<close> of the coupling matrix
  \<open>A\<close>, which has one row per joint and one column per axis, and store \<open>A\<close> and
  \<open>controlCoeff = inverse(A\<^sup>t \<cdot> A) \<cdot> A\<^sup>t\<close>: the pair that the estimator of the
  specification gives. Then control flows off the end of the function, which has no
  return statement, and the call is undefined. \<open>inverse\<close> is Eigen's \<^verbatim>\<open>inverse()\<close>, of which
  only the shape of the result is assumed.
\<close>

theorem trainCouplingMatrix_computes_then_undefined:
  assumes "shape_preserving inverseM"
      and "m_A s = empty_matrix"
      and "rows (m_jointsData s) = rows (m_motorsData s)"
      and "cols (m_jointsData s) = getNumberOfJoints (m_controlHelper s)"
      and "0 < getNumberOfJoints (m_controlHelper s)"
  shows "(\<exists>xT_x coeff A aT_a C.
            mult (transposeM (m_motorsData s)) (m_motorsData s) = Some xT_x \<and>
            mult (inverseM xT_x) (transposeM (m_motorsData s)) = Some coeff \<and>
            rows A = getNumberOfJoints (m_controlHelper s) \<and> cols A = cols (m_motorsData s) \<and>
            (\<forall>j < getNumberOfJoints (m_controlHelper s).
               mat_vec coeff (column j (m_jointsData s)) = Some (rowlist A ! j)) \<and>
            mult (transposeM A) A = Some aT_a \<and>
            mult (inverseM aT_a) (transposeM A) = Some C \<and>
            estimateCoupling_spec inverseM (m_motorsData s) (m_jointsData s)
              (getNumberOfJoints (m_controlHelper s)) = Some (A, C) \<and>
            trainCouplingMatrix_statements inverseM s = Some (s\<lparr>m_A := A, m_controlCoeff := C\<rparr>)) \<and>
         trainCouplingMatrix inverseM s = None"
proof -
  let ?n = "getNumberOfJoints (m_controlHelper s)"
  from trainCouplingMatrix_statements_closed[OF assms] obtain coeff A C where
    coeff: "pinv_spec inverseM (m_motorsData s) = Some coeff"
    and sh: "cols coeff = rows (m_motorsData s)"
    and A: "A = \<lparr>cols = cols (m_motorsData s),
                 rowlist = map (\<lambda>j. map (\<lambda>r. dot r (column j (m_jointsData s))) (rowlist coeff)) [0..<?n]\<rparr>"
    and C: "pinv_spec inverseM A = Some C"
    and res: "trainCouplingMatrix_statements inverseM s = Some (s\<lparr>m_A := A, m_controlCoeff := C\<rparr>)"
    by blast
  from pinv_spec_Some[OF coeff] obtain xT_x where
    x: "mult (transposeM (m_motorsData s)) (m_motorsData s) = Some xT_x"
       "mult (inverseM xT_x) (transposeM (m_motorsData s)) = Some coeff" by blast
  from pinv_spec_Some[OF C] obtain aT_a where
    a: "mult (transposeM A) A = Some aT_a" "mult (inverseM aT_a) (transposeM A) = Some C" by blast
  have shA: "rows A = ?n" "cols A = cols (m_motorsData s)"
    by (simp_all add: A rows_def)
  have rowsA: "\<forall>j < ?n. mat_vec coeff (column j (m_jointsData s)) = Some (rowlist A ! j)"
    using sh assms(3) by (simp add: A mat_vec_def column_def rows_def)
  have spec: "estimateCoupling_spec inverseM (m_motorsData s) (m_jointsData s) ?n = Some (A, C)"
    using coeff C by (simp add: estimateCoupling_spec_def A Let_def)
  from x a shA rowsA spec res trainCouplingMatrix_undefined[of inverseM s] show ?thesis by blast
qed

theorem trainCouplingMatrix_computes_then_undefined_witness:
  "shape_preserving inverse_small \<and> m_A excited_hand = empty_matrix \<and>
   rows (m_jointsData excited_hand) = rows (m_motorsData excited_hand) \<and>
   cols (m_jointsData excited_hand) = getNumberOfJoints (m_controlHelper excited_hand) \<and>
   0 < getNumberOfJoints (m_controlHelper excited_hand) \<and>
   estimateCoupling_spec inverse_small (m_motorsData excited_hand) (m_jointsData excited_hand) 3
     = Some (\<lparr>cols = 2, rowlist = [[1, 0], [0, 1], [1, 1]]\<rparr>,
             \<lparr>cols = 3, rowlist = [[2 / 3, - 1 / 3, 1 / 3], [- 1 / 3, 2 / 3, 1 / 3]]\<rparr>) \<and>
   trainCouplingMatrix_statements inverse_small excited_hand = Some trained_hand \<and>
   trainCouplingMatrix inverse_small excited_hand = None"
proof -
  have h: "m_A excited_hand = empty_matrix"
      "rows (m_jointsData excited_hand) = rows (m_motorsData excited_hand)"
      "cols (m_jointsData excited_hand) = getNumberOfJoints (m_controlHelper excited_hand)"
      "0 < getNumberOfJoints (m_controlHelper excited_hand)"
    by (simp_all add: excited_hand_def example_hand_def example_helper_def rows_def)
  have v: "getNumberOfJoints (m_controlHelper excited_hand) = 3"
    by (simp add: excited_hand_def example_hand_def example_helper_def)
  have t: "trainCouplingMatrix_statements inverse_small excited_hand = Some trained_hand"
    by (simp add: train_eval)
  from trainCouplingMatrix_computes_then_undefined[OF inverse_small_shape h] obtain A C where
    e: "estimateCoupling_spec inverse_small (m_motorsData excited_hand) (m_jointsData excited_hand) 3 = Some (A, C)"
    and r: "trainCouplingMatrix_statements inverse_small excited_hand
              = Some (excited_hand\<lparr>m_A := A, m_controlCoeff := C\<rparr>)"
    and u: "trainCouplingMatrix inverse_small excited_hand = None"
    unfolding v by blast
  from r t have eq: "excited_hand\<lparr>m_A := A, m_controlCoeff := C\<rparr> = trained_hand" by simp
  have "A = m_A trained_hand" using arg_cong[OF eq, of m_A] by simp
  then have A: "A = \<lparr>cols = 2, rowlist = [[1, 0], [0, 1], [1, 1]]\<rparr>"
    by (simp add: trained_hand_def)
  have "C = m_controlCoeff trained_hand" using arg_cong[OF eq, of m_controlCoeff] by simp
  then have C: "C = \<lparr>cols = 3, rowlist = [[2 / 3, - 1 / 3, 1 / 3], [- 1 / 3, 2 / 3, 1 / 3]]\<rparr>"
    by (simp add: trained_hand_def)
  from e t u h inverse_small_shape show ?thesis unfolding A C by simp
qed

text \<open>
  C1, as stated, fails on the hand after two samples without excitation (twice the same
  row) and on the hand after a single sample (fewer samples than axes): the statements of
  \<^verbatim>\<open>trainCouplingMatrix\<close> take no branch on the rank or the determinant, which they only
  log; they run to the closing brace and have stored a \<open>3 \<times> 2\<close> coupling matrix and a
  \<open>2 \<times> 3\<close> control coefficient. The call does not return false with the object as it
  was, which is how the functions of this class report a failure.
\<close>

theorem degenerate_log_is_trained:
  "degenerate (m_motorsData unexcited_hand) \<and>
   map_option stored_shapes (trainCouplingMatrix_statements inverse_small unexcited_hand)
     = Some ((3, 2), (2, 3)) \<and>
   trainCouplingMatrix inverse_small unexcited_hand \<noteq> Some (False, unexcited_hand) \<and>
   degenerate (m_motorsData undersampled_hand) \<and>
   map_option stored_shapes (trainCouplingMatrix_statements inverse_small undersampled_hand)
     = Some ((3, 2), (2, 3)) \<and>
   trainCouplingMatrix inverse_small undersampled_hand \<noteq> Some (False, undersampled_hand)"
  by (simp add: trainCouplingMatrix_undefined)
     (simp add: degenerate_def stored_shapes_def shape_def train_eval)

text \<open>
  C1, amended. \<^verbatim>\<open>trainCouplingMatrix\<close> makes no rank check and has no failure branch: on
  every log that a calibration session leaves, degenerate or not, its statements run
  through, change nothing but \<^verbatim>\<open>m_A\<close> and \<^verbatim>\<open>m_controlCoeff\<close>, and store a coupling matrix with
  one row per joint and one column per axis and a control coefficient with one row per
  axis and one column per joint, the pair that the unguarded formula of the estimator
  gives.
\<close>

theorem trainCouplingMatrix_unguarded:
  assumes "shape_preserving inverseM"
      and "m_A s = empty_matrix"
      and "rows (m_jointsData s) = rows (m_motorsData s)"
      and "cols (m_jointsData s) = getNumberOfJoints (m_controlHelper s)"
      and "0 < getNumberOfJoints (m_controlHelper s)"
  shows "\<exists>s'. trainCouplingMatrix_statements inverseM s = Some s' \<and>
              s' = s\<lparr>m_A := m_A s', m_controlCoeff := m_controlCoeff s'\<rparr> \<and>
              shape (m_A s') = (getNumberOfJoints (m_controlHelper s), cols (m_motorsData s)) \<and>
              shape (m_controlCoeff s') = (cols (m_motorsData s), getNumberOfJoints (m_controlHelper s)) \<and>
              estimateCoupling_spec inverseM (m_motorsData s) (m_jointsData s)
                (getNumberOfJoints (m_controlHelper s)) = Some (m_A s', m_controlCoeff s')"
proof -
  let ?n = "getNumberOfJoints (m_controlHelper s)"
  from trainCouplingMatrix_statements_closed[OF assms] obtain coeff A C where
    coeff: "pinv_spec inverseM (m_motorsData s) = Some coeff"
    and shC: "cols C = rows A" "rows C = cols A"
    and A: "A = \<lparr>cols = cols (m_motorsData s),
                 rowlist = map (\<lambda>j. map (\<lambda>r. dot r (column j (m_jointsData s))) (rowlist coeff)) [0..<?n]\<rparr>"
    and C: "pinv_spec inverseM A = Some C"
    and res: "trainCouplingMatrix_statements inverseM s = Some (s\<lparr>m_A := A, m_controlCoeff := C\<rparr>)"
    by blast
  let ?s' = "s\<lparr>m_A := A, m_controlCoeff := C\<rparr>"
  have shA: "rows A = ?n" "cols A = cols (m_motorsData s)"
    by (simp_all add: A rows_def)
  have spec: "estimateCoupling_spec inverseM (m_motorsData s) (m_jointsData s) ?n = Some (A, C)"
    using coeff C by (simp add: estimateCoupling_spec_def A Let_def)
  have "trainCouplingMatrix_statements inverseM s = Some ?s' \<and>
        ?s' = s\<lparr>m_A := m_A ?s', m_controlCoeff := m_controlCoeff ?s'\<rparr> \<and>
        shape (m_A ?s') = (?n, cols (m_motorsData s)) \<and>
        shape (m_controlCoeff ?s') = (cols (m_motorsData s), ?n) \<and>
        estimateCoupling_spec inverseM (m_motorsData s) (m_jointsData s) ?n
          = Some (m_A ?s', m_controlCoeff ?s')"
    using res shA shC spec by (simp add: shape_def)
  then show ?thesis by blast
qed

theorem trainCouplingMatrix_unguarded_witness:
  "degenerate (m_motorsData unexcited_hand) \<and> shape_preserving inverse_small \<and>
   m_A unexcited_hand = empty_matrix \<and>
   rows (m_jointsData unexcited_hand) = rows (m_motorsData unexcited_hand) \<and>
   cols (m_jointsData unexcited_hand) = getNumberOfJoints (m_controlHelper unexcited_hand) \<and>
   0 < getNumberOfJoints (m_controlHelper unexcited_hand) \<and>
   map_option (\<lambda>s'. shape (m_A s')) (trainCouplingMatrix_statements inverse_small unexcited_hand)
     = Some (3, 2) \<and>
   map_option (\<lambda>s'. shape (m_controlCoeff s')) (trainCouplingMatrix_statements inverse_small unexcited_hand)
     = Some (2, 3)"
proof -
  have h: "degenerate (m_motorsData unexcited_hand)"
      "m_A unexcited_hand = empty_matrix"
      "rows (m_jointsData unexcited_hand) = rows (m_motorsData unexcited_hand)"
      "cols (m_jointsData unexcited_hand) = getNumberOfJoints (m_controlHelper unexcited_hand)"
      "0 < getNumberOfJoints (m_controlHelper unexcited_hand)"
    by (simp_all add: degenerate_def unexcited_hand_def example_hand_def example_helper_def rows_def)
  have v: "getNumberOfJoints (m_controlHelper unexcited_hand) = 3" "cols (m_motorsData unexcited_hand) = 2"
    by (simp_all add: unexcited_hand_def example_hand_def example_helper_def)
  from trainCouplingMatrix_unguarded[OF inverse_small_shape h(2-5)] obtain s' where
    "trainCouplingMatrix_statements inverse_small unexcited_hand = Some s'"
    "shape (m_A s') = (3, 2)" "shape (m_controlCoeff s') = (2, 3)"
    unfolding v by blast
  then show ?thesis using h inverse_small_shape by simp
qed

end
